theory Spec2Isabelle
  imports Main
begin

section \<open>Python strings\<close>

text \<open>
  Strings of the program are modelled as \<^typ>\<open>string\<close>. The functions below follow
  Python's \<^verbatim>\<open>str\<close> methods on ASCII text; file identifiers and column names outside
  ASCII (where \<^verbatim>\<open>lower\<close>, \<^verbatim>\<open>strip\<close> and \<^verbatim>\<open>\d\<close> follow the Unicode tables) are not covered.
\<close>

definition startswith :: "string \<Rightarrow> string \<Rightarrow> bool" where
  \<comment> \<open>\<^verbatim>\<open>s.startswith(p)\<close>\<close>
  "startswith p s = (take (length p) s = p)"

fun contains :: "string \<Rightarrow> string \<Rightarrow> bool" where
  \<comment> \<open>\<^verbatim>\<open>sub in s\<close>\<close>
  "contains sub [] = (sub = [])"
| "contains sub (c # cs) = (startswith sub (c # cs) \<or> contains sub cs)"

function str_replace :: "string \<Rightarrow> string \<Rightarrow> string \<Rightarrow> string" where
  \<comment> \<open>\<^verbatim>\<open>s.replace(old, new)\<close>: every non-overlapping occurrence, scanning from the left\<close>
  "str_replace old new s =
     (if old = [] then new @ concat (map (\<lambda>c. c # new) s)
      else if s = [] then []
      else if startswith old s then new @ str_replace old new (drop (length old) s)
      else hd s # str_replace old new (tl s))"
  by pat_completeness auto
termination
  by (relation "measure (\<lambda>(old, new, s). length s)") auto

declare str_replace.simps [simp del]

definition py_whitespace :: "char list" where
  \<comment> \<open>the ASCII characters for which \<^verbatim>\<open>str.isspace\<close> holds\<close>
  "py_whitespace =
     [CHR 0x09, CHR 0x0A, CHR 0x0B, CHR 0x0C, CHR 0x0D,
      CHR 0x1C, CHR 0x1D, CHR 0x1E, CHR 0x1F, CHR 0x20]"

definition is_space :: "char \<Rightarrow> bool" where
  "is_space c = (c \<in> set py_whitespace)"

definition strip :: "string \<Rightarrow> string" where
  \<comment> \<open>\<^verbatim>\<open>s.strip()\<close>\<close>
  "strip s = rev (dropWhile is_space (rev (dropWhile is_space s)))"

definition lower_char :: "char \<Rightarrow> char" where
  "lower_char c =
     (case map_of (zip ''ABCDEFGHIJKLMNOPQRSTUVWXYZ'' ''abcdefghijklmnopqrstuvwxyz'') c of
        Some d \<Rightarrow> d
      | None \<Rightarrow> c)"

definition lower :: "string \<Rightarrow> string" where
  \<comment> \<open>\<^verbatim>\<open>s.lower()\<close>\<close>
  "lower s = map lower_char s"

definition dict_of :: "('k \<times> 'v) list \<Rightarrow> ('k \<rightharpoonup> 'v)" where
  \<comment> \<open>a dict display: where a key is written twice, the later entry wins\<close>
  "dict_of kvs = map_of (rev kvs)"

section \<open>Column Normalizer\<close>

definition nyc_mapping :: "string \<rightharpoonup> string" where
  "nyc_mapping = dict_of
     [(''tripduration'', ''trip_duration''),
      (''starttime'', ''start_time''),
      (''stoptime'', ''stop_time''),
      (''start_station_name'', ''start_station_name''),
      (''end_station_name'', ''end_station_name''),
      (''start_station_id'', ''start_station_id''),
      (''end_station_id'', ''end_station_id''),
      (''start_lat'', ''start_latitude''),
      (''start_lng'', ''start_longitude''),
      (''end_lat'', ''end_latitude''),
      (''end_lng'', ''end_longitude''),
      (''bikeid'', ''bike_id''),
      (''usertype'', ''user_type''),
      (''birth_year'', ''birth_year''),
      (''gender'', ''gender''),
      (''member_casual'', ''member_type''),
      (''rideable_type'', ''rideable_type''),
      (''started_at'', ''start_time''),
      (''ended_at'', ''stop_time''),
      (''start_station_latitude'', ''start_latitude''),
      (''start_station_longitude'', ''start_longitude''),
      (''end_station_latitude'', ''end_latitude''),
      (''end_station_longitude'', ''end_longitude''),
      (''start_lat'', ''start_latitude''),
      (''start_lng'', ''start_longitude''),
      (''end_lat'', ''end_latitude''),
      (''end_lng'', ''end_longitude''),
      (''station_id'', ''start_station_id''),
      (''name'', ''start_station_name'')]"

definition jc_mapping :: "string \<rightharpoonup> string" where
  "jc_mapping = dict_of
     [(''tripduration'', ''trip_duration''),
      (''starttime'', ''start_time''),
      (''stoptime'', ''stop_time''),
      (''start_station_name'', ''start_station_name''),
      (''end_station_name'', ''end_station_name''),
      (''start_station_id'', ''start_station_id''),
      (''end_station_id'', ''end_station_id''),
      (''start_lat'', ''start_latitude''),
      (''start_lng'', ''start_longitude''),
      (''end_lat'', ''end_latitude''),
      (''end_lng'', ''end_longitude''),
      (''bikeid'', ''bike_id''),
      (''usertype'', ''user_type''),
      (''birth_year'', ''birth_year''),
      (''gender'', ''gender''),
      (''member_casual'', ''member_type''),
      (''rideable_type'', ''rideable_type''),
      (''started_at'', ''start_time''),
      (''ended_at'', ''stop_time''),
      (''start_station_latitude'', ''start_latitude''),
      (''start_station_longitude'', ''start_longitude''),
      (''end_station_latitude'', ''end_latitude''),
      (''end_station_longitude'', ''end_longitude''),
      (''start_lat'', ''start_latitude''),
      (''start_lng'', ''start_longitude''),
      (''end_lat'', ''end_latitude''),
      (''end_lng'', ''end_longitude''),
      (''station_id'', ''start_station_id''),
      (''name'', ''start_station_name'')]"

definition normalize_column_name :: "string \<Rightarrow> string \<Rightarrow> string" where
  "normalize_column_name column_name region =
     (let normalized = str_replace '' '' ''_'' column_name;
          mapping = (if region = ''nyc'' then nyc_mapping else jc_mapping)
      in case mapping normalized of
           Some canonical \<Rightarrow> canonical
         | None \<Rightarrow> normalized)"

section \<open>Exceptions and the module's global names\<close>

datatype py_error =
    NameError string
  | AttributeError string
  | KeyError string
  | ValueError string
  | ClientError string

definition module_globals :: "string list" where
  \<comment> \<open>the names bound by the top-level statements of \<^verbatim>\<open>process_citibike_data_lambda.py\<close>:
      its five imports, its four constants and its functions\<close>
  "module_globals =
     [''boto3'', ''pd'', ''io'', ''json'', ''datetime'',
      ''SOURCE_BUCKET'', ''DESTINATION_BUCKET'', ''SCHEMA_KEY'', ''PROCESSED_DATA_PREFIX'',
      ''lambda_handler'', ''load_existing_schema'', ''extract_files_from_event'',
      ''list_unprocessed_files'', ''read_file_to_dataframe'',
      ''update_schema_with_new_columns'', ''normalize_column_name'', ''transform_data'',
      ''save_dataframe_to_s3'', ''save_schema_to_s3'', ''extract_metadata_from_filename'',
      ''generate_destination_key'']"

definition py_builtins :: "string list" where
  \<comment> \<open>the builtins the module refers to\<close>
  "py_builtins = [''print'', ''str'', ''len'', ''any'', ''Exception'']"

definition load_global :: "string list \<Rightarrow> string \<Rightarrow> py_error + unit" where
  \<comment> \<open>evaluating a global name: looked up in the module's globals, then in the builtins\<close>
  "load_global globals name =
     (if name \<in> set globals \<or> name \<in> set py_builtins then Inr () else Inl (NameError name))"

section \<open>Filename Metadata Extractor\<close>

record file_metadata =
  year :: "string option"
  month :: "string option"
  region :: string
  type :: string

definition truthy :: "string option \<Rightarrow> bool" where
  \<comment> \<open>\<^verbatim>\<open>if v:\<close> for a value that is \<^verbatim>\<open>None\<close> or a string\<close>
  "truthy v = (case v of None \<Rightarrow> False | Some s \<Rightarrow> s \<noteq> [])"

definition basename :: "string \<Rightarrow> string" where
  \<comment> \<open>\<^verbatim>\<open>posixpath.basename\<close>: what follows the last slash\<close>
  "basename p = rev (takeWhile (\<lambda>c. c \<noteq> CHR ''/'') (rev p))"

definition is_digit :: "char \<Rightarrow> bool" where
  "is_digit c = (c \<in> set ''0123456789'')"

fun year_at :: "string \<Rightarrow> string option" where
  \<comment> \<open>the group \<^verbatim>\<open>(20\d{2})\<close> matched at the start of the string\<close>
  "year_at (a # b # c # d # rest) =
     (if a = CHR ''2'' \<and> b = CHR ''0'' \<and> is_digit c \<and> is_digit d
      then Some [a, b, c, d] else None)"
| "year_at _ = None"

fun month_at :: "string \<Rightarrow> string option" where
  \<comment> \<open>the group \<^verbatim>\<open>(\d{2})\<close> matched at the start of the string\<close>
  "month_at (a # b # rest) = (if is_digit a \<and> is_digit b then Some [a, b] else None)"
| "month_at _ = None"

definition year_month_at :: "string \<Rightarrow> (string \<times> string) option" where
  \<comment> \<open>\<^verbatim>\<open>(20\d{2})(\d{2})\<close> matched at the start of the string\<close>
  "year_month_at s =
     (case year_at s of
        None \<Rightarrow> None
      | Some y \<Rightarrow> (case month_at (drop 4 s) of None \<Rightarrow> None | Some m \<Rightarrow> Some (y, m)))"

definition annual_match :: "string \<Rightarrow> string option" where
  \<comment> \<open>\<^verbatim>\<open>re.search(r'^(20\d{2})-citibike-tripdata', base_part)\<close>, its group 1\<close>
  "annual_match base_part =
     (case year_at base_part of
        None \<Rightarrow> None
      | Some y \<Rightarrow> if startswith ''-citibike-tripdata'' (drop 4 base_part) then Some y else None)"

definition monthly_match :: "string \<Rightarrow> (string \<times> string) option" where
  \<comment> \<open>\<^verbatim>\<open>re.search(r'^(20\d{2})(\d{2})-citibike-tripdata', base_part)\<close>, its groups 1 and 2\<close>
  "monthly_match base_part =
     (case year_month_at base_part of
        None \<Rightarrow> None
      | Some ym \<Rightarrow> if startswith ''-citibike-tripdata'' (drop 6 base_part) then Some ym else None)"

fun re_search :: "(string \<Rightarrow> 'a option) \<Rightarrow> string \<Rightarrow> 'a option" where
  \<comment> \<open>\<^verbatim>\<open>re.search\<close> of an unanchored pattern: the leftmost position where it matches\<close>
  "re_search p [] = p []"
| "re_search p (c # cs) = (case p (c # cs) of Some r \<Rightarrow> Some r | None \<Rightarrow> re_search p cs)"

definition parse_filename :: "string \<Rightarrow> file_metadata" where
  \<comment> \<open>the statements of \<^verbatim>\<open>extract_metadata_from_filename\<close> that follow
      \<^verbatim>\<open>base_filename = os.path.basename(filename)\<close>\<close>
  "parse_filename base_filename =
     (let metadata = \<lparr>year = None, month = None, region = ''nyc'', type = ''unknown''\<rparr>;
          metadata = (if contains ''JC-'' base_filename then metadata\<lparr>region := ''jc''\<rparr>
                      else metadata);
          base_part = (if contains ''JC-'' base_filename
                       then str_replace ''JC-'' [] base_filename else base_filename)
      in case annual_match base_part of
           Some y \<Rightarrow> metadata\<lparr>year := Some y, type := ''annual''\<rparr>
         | None \<Rightarrow>
             (case monthly_match base_part of
                Some (y, m) \<Rightarrow> metadata\<lparr>year := Some y, month := Some m, type := ''monthly''\<rparr>
              | None \<Rightarrow>
                  (case re_search year_at base_part of
                     Some y \<Rightarrow>
                       (case re_search year_month_at base_part of
                          Some (y', m) \<Rightarrow>
                            metadata\<lparr>year := Some y, month := Some m, type := ''monthly''\<rparr>
                        | None \<Rightarrow> metadata\<lparr>year := Some y, type := ''annual''\<rparr>)
                   | None \<Rightarrow> metadata)))"

definition extract_metadata_from_filename_in ::
  "string list \<Rightarrow> string \<Rightarrow> py_error + file_metadata" where
  \<comment> \<open>the function body run with the global names \<open>globals\<close>: the name \<^verbatim>\<open>os\<close> is evaluated
      first, then its \<^verbatim>\<open>path.basename\<close> is applied\<close>
  "extract_metadata_from_filename_in globals filename =
     (case load_global globals ''os'' of
        Inl e \<Rightarrow> Inl e
      | Inr _ \<Rightarrow> Inr (parse_filename (basename filename)))"

definition extract_metadata_from_filename :: "string \<Rightarrow> py_error + file_metadata" where
  "extract_metadata_from_filename = extract_metadata_from_filename_in module_globals"

definition PROCESSED_DATA_PREFIX :: string where
  "PROCESSED_DATA_PREFIX = ''processed_data/''"

definition fmt :: "string option \<Rightarrow> string" where
  \<comment> \<open>a value that is \<^verbatim>\<open>None\<close> or a string, inside an f-string\<close>
  "fmt v = (case v of None \<Rightarrow> ''None'' | Some s \<Rightarrow> s)"

definition generate_destination_key_in ::
  "string list \<Rightarrow> string \<Rightarrow> file_metadata \<Rightarrow> py_error + string" where
  "generate_destination_key_in globals file_key file_metadata =
     (case load_global globals ''os'' of
        Inl e \<Rightarrow> Inl e
      | Inr _ \<Rightarrow>
          (let filename = basename file_key;
               base_name = takeWhile (\<lambda>c. c \<noteq> CHR ''.'') filename
           in if truthy (month file_metadata)
              then Inr (PROCESSED_DATA_PREFIX @ region file_metadata @ ''/'' @
                        fmt (year file_metadata) @ ''/'' @ fmt (month file_metadata) @ ''/'' @
                        base_name @ ''.parquet'')
              else Inr (PROCESSED_DATA_PREFIX @ region file_metadata @ ''/'' @
                        fmt (year file_metadata) @ ''/'' @ base_name @ ''.parquet'')))"

definition generate_destination_key :: "string \<Rightarrow> file_metadata \<Rightarrow> py_error + string" where
  "generate_destination_key = generate_destination_key_in module_globals"

definition read_file_to_dataframe_in ::
  "string list \<Rightarrow> (string \<Rightarrow> string \<Rightarrow> py_error + 'r) \<Rightarrow> (string \<Rightarrow> 'r \<Rightarrow> py_error + 'd option) \<Rightarrow>
   string \<Rightarrow> string \<Rightarrow> py_error + 'd option" where
  \<comment> \<open>\<open>get_object\<close> is the S3 client's call; \<open>reader\<close> stands for the statements that
      follow the evaluation of \<^verbatim>\<open>os\<close> (the extension test and the pandas readers).
      The whole body is inside \<^verbatim>\<open>try: ... except Exception\<close>, which returns \<^verbatim>\<open>None\<close>.\<close>
  "read_file_to_dataframe_in globals get_object reader bucket key =
     (let body =
        (case get_object bucket key of
           Inl e \<Rightarrow> Inl e
         | Inr response \<Rightarrow>
             (case load_global globals ''os'' of
                Inl e \<Rightarrow> Inl e
              | Inr _ \<Rightarrow> reader key response))
      in case body of Inl e \<Rightarrow> Inr None | Inr df \<Rightarrow> Inr df)"

definition read_file_to_dataframe ::
  "(string \<Rightarrow> string \<Rightarrow> py_error + 'r) \<Rightarrow> (string \<Rightarrow> 'r \<Rightarrow> py_error + 'd option) \<Rightarrow>
   string \<Rightarrow> string \<Rightarrow> py_error + 'd option" where
  "read_file_to_dataframe = read_file_to_dataframe_in module_globals"

section \<open>Datasets\<close>

text \<open>
  A pandas DataFrame is its number of rows and its columns in order, each a label with a
  Series; labels may repeat. A cell is a string or another scalar (a number, a missing
  value, a timestamp) of type \<open>'v\<close>.
\<close>

datatype 'v cell = Str string | Val 'v

record 'v series =
  dtype :: string
  cells :: "'v cell list"

record 'v dataframe =
  nrows :: nat
  cols :: "(string \<times> 'v series) list"

datatype 'v selection = Series "'v series" | Frame "'v series list"

definition labels :: "'v dataframe \<Rightarrow> string list" where
  \<comment> \<open>\<^verbatim>\<open>df.columns\<close>\<close>
  "labels df = map fst (cols df)"

definition getitem :: "'v dataframe \<Rightarrow> string \<Rightarrow> py_error + 'v selection" where
  \<comment> \<open>\<^verbatim>\<open>df[label]\<close>: a Series when the label stands once, a DataFrame when it repeats\<close>
  "getitem df label =
     (case filter (\<lambda>c. fst c = label) (cols df) of
        [] \<Rightarrow> Inl (KeyError label)
      | [c] \<Rightarrow> Inr (Series (snd c))
      | c # c' # others \<Rightarrow> Inr (Frame (map snd (c # c' # others))))"

definition dtype_of :: "'v selection \<Rightarrow> py_error + string" where
  \<comment> \<open>\<^verbatim>\<open>.dtype\<close>, an attribute of a Series only\<close>
  "dtype_of sel = (case sel of Series s \<Rightarrow> Inr (dtype s) | Frame ss \<Rightarrow> Inl (AttributeError ''dtype''))"

definition setitem :: "'v dataframe \<Rightarrow> string \<Rightarrow> 'v series \<Rightarrow> 'v dataframe" where
  \<comment> \<open>\<^verbatim>\<open>df[label] = series\<close>: every column carrying the label is replaced; a new label is
      appended\<close>
  "setitem df label s =
     (if label \<in> set (labels df)
      then df\<lparr>cols := map (\<lambda>c. if fst c = label then (label, s) else c) (cols df)\<rparr>
      else df\<lparr>cols := cols df @ [(label, s)]\<rparr>)"

definition setitem_scalar :: "'v dataframe \<Rightarrow> string \<Rightarrow> string \<Rightarrow> 'v dataframe" where
  \<comment> \<open>\<^verbatim>\<open>df[label] = 'text'\<close>: the text in every row\<close>
  "setitem_scalar df label text =
     setitem df label \<lparr>dtype = ''object'', cells = replicate (nrows df) (Str text)\<rparr>"

record 'v pandas =
  py_str :: "'v \<Rightarrow> string"
  parse_datetime :: "'v cell \<Rightarrow> 'v option"
  NaT :: 'v
  to_datetime_raises :: "'v series \<Rightarrow> bool"
  datetime_dtype :: "'v series \<Rightarrow> string"
  to_numeric :: "'v series \<Rightarrow> 'v series option"

text \<open>
  The library is a parameter: \<open>py_str\<close> is \<^verbatim>\<open>str\<close> of a scalar that is no string,
  \<open>parse_datetime\<close> the timestamp a value parses to (if it does), \<open>NaT\<close> the missing
  timestamp, \<open>to_datetime_raises\<close> tells whether \<^verbatim>\<open>pd.to_datetime(..., errors='coerce')\<close>
  raises on a Series, \<open>datetime_dtype\<close> is the dtype of the Series that call returns
  (\<^verbatim>\<open>datetime64[ns]\<close>, \<^verbatim>\<open>datetime64[ns, UTC]\<close> for values that carry one offset, \<^verbatim>\<open>object\<close>
  for mixed offsets), and \<open>to_numeric\<close> is \<^verbatim>\<open>pd.to_numeric\<close> (\<open>None\<close> when it raises).
\<close>

definition astype_str :: "'v pandas \<Rightarrow> 'v cell \<Rightarrow> string" where
  \<comment> \<open>one value under \<^verbatim>\<open>.astype(str)\<close>\<close>
  "astype_str lib c = (case c of Str s \<Rightarrow> s | Val v \<Rightarrow> py_str lib v)"

section \<open>Schema Registry\<close>

record column_entry =
  data_type :: string
  first_seen_year :: string
  first_seen_month :: "string option"
  first_seen_region :: string
  normalized_name :: string

record source_entry =
  src_year :: string
  src_month :: "string option"
  src_region :: string
  src_columns :: "string list"

text \<open>
  The registry is a dict whose top-level keys may be missing (it is loaded from JSON):
  a missing key is \<open>None\<close>. The fields of a source entry are the keys \<^verbatim>\<open>year\<close>,
  \<^verbatim>\<open>month\<close>, \<^verbatim>\<open>region\<close> and \<^verbatim>\<open>columns\<close> of the source.
\<close>

record schema_dict =
  columns :: "(string \<rightharpoonup> column_entry) option"
  column_mappings :: "(string \<rightharpoonup> string) option"
  sources :: "(string \<rightharpoonup> source_entry) option"
  last_updated :: "string option"

definition columns_of :: "schema_dict \<Rightarrow> (string \<rightharpoonup> column_entry)" where
  "columns_of schema = (case columns schema of None \<Rightarrow> Map.empty | Some m \<Rightarrow> m)"

definition mappings_of :: "schema_dict \<Rightarrow> (string \<rightharpoonup> string)" where
  \<comment> \<open>\<^verbatim>\<open>schema_dict.get('column_mappings', {})\<close>\<close>
  "mappings_of schema = (case column_mappings schema of None \<Rightarrow> Map.empty | Some m \<Rightarrow> m)"

definition sources_of :: "schema_dict \<Rightarrow> (string \<rightharpoonup> source_entry)" where
  "sources_of schema = (case sources schema of None \<Rightarrow> Map.empty | Some m \<Rightarrow> m)"

record clock =
  now_year :: string
  now_iso :: string

text \<open>
  The two readings of \<^verbatim>\<open>datetime.now()\<close> of one call: \<^verbatim>\<open>str(datetime.now().year)\<close> and
  \<^verbatim>\<open>datetime.now().isoformat()\<close>.
\<close>

definition source_key_of :: "string \<Rightarrow> string \<Rightarrow> string option \<Rightarrow> string" where
  "source_key_of region' year' month' =
     (if truthy month' then region' @ ''_'' @ year' @ ''_'' @ fmt month'
      else region' @ ''_'' @ year')"

definition ensure_source :: "string \<Rightarrow> source_entry \<Rightarrow> schema_dict \<Rightarrow> schema_dict" where
  \<comment> \<open>the two \<^verbatim>\<open>if ... not in ...\<close> statements that create \<^verbatim>\<open>sources\<close> and the source's entry\<close>
  "ensure_source source_key entry schema =
     (let srcs = sources_of schema
      in if source_key \<in> dom srcs then schema\<lparr>sources := Some srcs\<rparr>
         else schema\<lparr>sources := Some (srcs(source_key \<mapsto> entry))\<rparr>)"

definition record_source_column :: "string \<Rightarrow> string \<Rightarrow> schema_dict \<Rightarrow> py_error + schema_dict" where
  \<comment> \<open>\<^verbatim>\<open>if column_name not in schema_dict['sources'][source_key]['columns']: ...append(column_name)\<close>\<close>
  "record_source_column source_key column_name schema =
     (case sources schema of
        None \<Rightarrow> Inl (KeyError ''sources'')
      | Some srcs \<Rightarrow>
          (case srcs source_key of
             None \<Rightarrow> Inl (KeyError source_key)
           | Some entry \<Rightarrow>
               if column_name \<in> set (src_columns entry) then Inr schema
               else Inr (schema\<lparr>sources :=
                 Some (srcs(source_key \<mapsto> entry\<lparr>src_columns := src_columns entry @ [column_name]\<rparr>))\<rparr>)))"

definition add_new_column ::
  "string \<Rightarrow> string \<Rightarrow> string option \<Rightarrow> string \<Rightarrow> string \<Rightarrow> schema_dict \<Rightarrow> py_error + schema_dict" where
  \<comment> \<open>\<^verbatim>\<open>if column_name not in schema_dict['columns']: ...\<close>\<close>
  "add_new_column region' year' month' column_name data_type' schema =
     (case columns schema of
        None \<Rightarrow> Inl (KeyError ''columns'')
      | Some cs \<Rightarrow>
          if column_name \<in> dom cs then Inr schema
          else
            (let normalized_name = normalize_column_name column_name region';
                 entry = \<lparr>data_type = data_type', first_seen_year = year',
                          first_seen_month = month', first_seen_region = region',
                          normalized_name = normalized_name\<rparr>
             in Inr (schema\<lparr>columns := Some (cs(column_name \<mapsto> entry)),
                            column_mappings :=
                              Some ((mappings_of schema)(column_name \<mapsto> normalized_name))\<rparr>)))"

definition update_column ::
  "string \<Rightarrow> string \<Rightarrow> string option \<Rightarrow> string \<Rightarrow> 'v dataframe \<Rightarrow> schema_dict \<Rightarrow> string \<Rightarrow>
   schema_dict \<times> py_error option" where
  \<comment> \<open>one iteration of \<^verbatim>\<open>for column in df.columns\<close>: the registry after it, and the exception
      it raised, if any\<close>
  "update_column region' year' month' source_key df schema column =
     (let column_name = lower (strip column)
      in case (case getitem df column of Inl e \<Rightarrow> Inl e | Inr sel \<Rightarrow> dtype_of sel) of
           Inl e \<Rightarrow> (schema, Some e)
         | Inr data_type' \<Rightarrow>
             (case record_source_column source_key column_name schema of
                Inl e \<Rightarrow> (schema, Some e)
              | Inr schema1 \<Rightarrow>
                  (case add_new_column region' year' month' column_name data_type' schema1 of
                     Inl e \<Rightarrow> (schema1, Some e)
                   | Inr schema2 \<Rightarrow> (schema2, None))))"

fun update_columns ::
  "string \<Rightarrow> string \<Rightarrow> string option \<Rightarrow> string \<Rightarrow> 'v dataframe \<Rightarrow> schema_dict \<Rightarrow> string list \<Rightarrow>
   schema_dict \<times> py_error option" where
  "update_columns region' year' month' source_key df schema [] = (schema, None)"
| "update_columns region' year' month' source_key df schema (column # rest) =
     (case update_column region' year' month' source_key df schema column of
        (schema1, Some e) \<Rightarrow> (schema1, Some e)
      | (schema1, None) \<Rightarrow> update_columns region' year' month' source_key df schema1 rest)"

definition update_schema_with_new_columns ::
  "clock \<Rightarrow> schema_dict \<Rightarrow> 'v dataframe \<Rightarrow> file_metadata \<Rightarrow> schema_dict \<times> py_error option" where
  \<comment> \<open>The dict is updated in place: the first component is the registry after the call,
      whether the call returned it (\<open>None\<close>) or raised (\<open>Some e\<close>).\<close>
  "update_schema_with_new_columns clk schema df file_metadata =
     (let year' = (if truthy (year file_metadata) then fmt (year file_metadata) else now_year clk);
          month' = month file_metadata;
          region' = region file_metadata;
          source_key = source_key_of region' year' month';
          schema1 = ensure_source source_key
            \<lparr>src_year = year', src_month = month', src_region = region', src_columns = []\<rparr> schema
      in case update_columns region' year' month' source_key df schema1 (labels df) of
           (schema2, Some e) \<Rightarrow> (schema2, Some e)
         | (schema2, None) \<Rightarrow> (schema2\<lparr>last_updated := Some (now_iso clk)\<rparr>, None))"

fun update_all ::
  "schema_dict \<Rightarrow> (clock \<times> 'v dataframe \<times> file_metadata) list \<Rightarrow> schema_dict" where
  \<comment> \<open>the registry after a sequence of calls on the same dict\<close>
  "update_all schema [] = schema"
| "update_all schema ((clk, df, file_metadata) # calls) =
     update_all (fst (update_schema_with_new_columns clk schema df file_metadata)) calls"

text \<open>
  The order in which the registry evolves: entries of \<^verbatim>\<open>columns\<close> stay as they are, the
  mapping of a known column stays as it is, no mapping disappears, and a source entry
  keeps its fields while its column list is extended at the end.
\<close>

definition registry_grows :: "schema_dict \<Rightarrow> schema_dict \<Rightarrow> bool" where
  "registry_grows s s' =
     ((\<forall>k e. columns_of s k = Some e \<longrightarrow> columns_of s' k = Some e)
      \<and> (\<forall>k. k \<in> dom (columns_of s) \<longrightarrow> mappings_of s' k = mappings_of s k)
      \<and> dom (mappings_of s) \<subseteq> dom (mappings_of s')
      \<and> (\<forall>k e. sources_of s k = Some e \<longrightarrow>
            (\<exists>e'. sources_of s' k = Some e' \<and> src_year e' = src_year e
                  \<and> src_month e' = src_month e \<and> src_region e' = src_region e
                  \<and> (\<exists>ys. src_columns e' = src_columns e @ ys))))"

section \<open>Transform Engine\<close>

definition try_then :: "py_error + 'a \<Rightarrow> ('a \<Rightarrow> py_error + 'b) \<Rightarrow> py_error + 'b" where
  \<comment> \<open>two statements in sequence: an exception of the first skips the second\<close>
  "try_then r f = (case r of Inl e \<Rightarrow> Inl e | Inr x \<Rightarrow> f x)"

definition rename_target :: "schema_dict \<Rightarrow> string \<Rightarrow> string \<Rightarrow> string" where
  \<comment> \<open>the body of the loop that fills \<^verbatim>\<open>column_mapping\<close>\<close>
  "rename_target schema region' col =
     (let col_lower = lower (strip col)
      in case mappings_of schema col_lower of
           Some canonical \<Rightarrow> canonical
         | None \<Rightarrow> normalize_column_name col_lower region')"

definition build_column_mapping ::
  "schema_dict \<Rightarrow> string \<Rightarrow> string list \<Rightarrow> (string \<rightharpoonup> string)" where
  "build_column_mapping schema region' columns' =
     fold (\<lambda>col column_mapping. column_mapping(col \<mapsto> rename_target schema region' col))
       columns' Map.empty"

definition rename :: "'v dataframe \<Rightarrow> (string \<rightharpoonup> string) \<Rightarrow> 'v dataframe" where
  \<comment> \<open>\<^verbatim>\<open>df.rename(columns=column_mapping)\<close>: every label is mapped, every column is kept\<close>
  "rename df column_mapping =
     df\<lparr>cols := map (\<lambda>c. (case column_mapping (fst c) of Some n \<Rightarrow> n | None \<Rightarrow> fst c, snd c))
                     (cols df)\<rparr>"

definition strip_marker :: "'v pandas \<Rightarrow> 'v cell \<Rightarrow> 'v cell" where
  \<comment> \<open>one value under \<^verbatim>\<open>.astype(str).str.replace('JC-', '').str.replace('JC', '')\<close>\<close>
  "strip_marker lib c = Str (str_replace ''JC'' [] (str_replace ''JC-'' [] (astype_str lib c)))"

definition fix_station_id :: "'v pandas \<Rightarrow> string \<Rightarrow> 'v dataframe \<Rightarrow> py_error + 'v dataframe" where
  \<comment> \<open>the \<^verbatim>\<open>if\<close> statement on a station-id column, for \<open>label\<close> either
      \<^verbatim>\<open>start_station_id\<close> or \<^verbatim>\<open>end_station_id\<close>\<close>
  "fix_station_id lib label df =
     (if label \<in> set (labels df)
      then try_then (getitem df label) (\<lambda>sel.
           try_then (dtype_of sel) (\<lambda>dt.
             if dt = ''object''
             then (case sel of
                     Frame ss \<Rightarrow> Inl (AttributeError ''str'')
                   | Series s \<Rightarrow>
                       (let stripped = \<lparr>dtype = ''object'', cells = map (strip_marker lib) (cells s)\<rparr>
                        in case to_numeric lib stripped of
                             Some numeric \<Rightarrow> Inr (setitem df label numeric)
                           | None \<Rightarrow> Inr (setitem df label stripped)))
             else Inr df))
      else Inr df)"

definition prefix_cell :: "'v pandas \<Rightarrow> 'v cell \<Rightarrow> 'v cell" where
  \<comment> \<open>a row of the mask gets \<^verbatim>\<open>'JC - ' + str(value)\<close>, any other row keeps its value\<close>
  "prefix_cell lib c =
     (if \<not> startswith ''JC - '' (astype_str lib c) then Str (''JC - '' @ astype_str lib c) else c)"

definition prefix_station_name ::
  "'v pandas \<Rightarrow> string \<Rightarrow> 'v dataframe \<Rightarrow> py_error + 'v dataframe" where
  \<comment> \<open>the \<^verbatim>\<open>if\<close> statement on a station-name column, for \<open>label\<close> either
      \<^verbatim>\<open>start_station_name\<close> or \<^verbatim>\<open>end_station_name\<close>\<close>
  "prefix_station_name lib label df =
     (if label \<in> set (labels df)
      then try_then (getitem df label) (\<lambda>sel.
             case sel of
               Frame ss \<Rightarrow> Inl (AttributeError ''str'')
             | Series s \<Rightarrow>
                 (let mask = map (\<lambda>c. \<not> startswith ''JC - '' (astype_str lib c)) (cells s)
                  in Inr (setitem df label
                       \<lparr>dtype = (if True \<in> set mask then ''object'' else dtype s),
                          cells = map (prefix_cell lib) (cells s)\<rparr>)))
      else Inr df)"

definition prefix_station_names :: "'v pandas \<Rightarrow> 'v dataframe \<Rightarrow> py_error + 'v dataframe" where
  \<comment> \<open>step 2 of the Jersey City branch\<close>
  "prefix_station_names lib df =
     try_then (prefix_station_name lib ''start_station_name'' df)
       (prefix_station_name lib ''end_station_name'')"

definition time_keywords :: "string list" where
  "time_keywords = [''time'', ''date'', ''started_at'', ''ended_at'']"

definition is_time_column :: "string \<Rightarrow> bool" where
  \<comment> \<open>\<^verbatim>\<open>any(time_keyword in col.lower() for time_keyword in [...])\<close>\<close>
  "is_time_column col = list_ex (\<lambda>time_keyword. contains time_keyword (lower col)) time_keywords"

definition coerce_cell :: "'v pandas \<Rightarrow> 'v cell \<Rightarrow> 'v cell" where
  \<comment> \<open>\<^verbatim>\<open>errors='coerce'\<close>: a value that does not parse becomes \<^verbatim>\<open>NaT\<close>\<close>
  "coerce_cell lib c = (case parse_datetime lib c of Some t \<Rightarrow> Val t | None \<Rightarrow> Val (NaT lib))"

definition to_datetime :: "'v pandas \<Rightarrow> 'v selection \<Rightarrow> py_error + 'v series" where
  \<comment> \<open>\<^verbatim>\<open>pd.to_datetime(df[col], errors='coerce')\<close>; a DataFrame whose labels repeat is
      refused; the dtype of the result is the library's\<close>
  "to_datetime lib sel =
     (case sel of
        Frame ss \<Rightarrow> Inl (ValueError ''cannot assemble with duplicate keys'')
      | Series s \<Rightarrow>
          if to_datetime_raises lib s then Inl (ValueError ''to_datetime'')
          else Inr \<lparr>dtype = datetime_dtype lib s, cells = map (coerce_cell lib) (cells s)\<rparr>)"

definition convert_column :: "'v pandas \<Rightarrow> string \<Rightarrow> 'v dataframe \<Rightarrow> 'v dataframe" where
  \<comment> \<open>one iteration of the conversion loop; the bare \<^verbatim>\<open>except: pass\<close> keeps \<open>df\<close>\<close>
  "convert_column lib col df =
     (if is_time_column col
      then (case try_then (getitem df col) (to_datetime lib) of
              Inl e \<Rightarrow> df
            | Inr converted \<Rightarrow> setitem df col converted)
      else df)"

definition convert_datetime_columns :: "'v pandas \<Rightarrow> 'v dataframe \<Rightarrow> 'v dataframe" where
  \<comment> \<open>\<^verbatim>\<open>for col in df.columns: ...\<close>\<close>
  "convert_datetime_columns lib df = fold (convert_column lib) (labels df) df"

definition add_str :: "string \<Rightarrow> 'v cell \<Rightarrow> 'v cell" where
  \<comment> \<open>\<^verbatim>\<open>value + text\<close> on a string value\<close>
  "add_str text c = (case c of Str s \<Rightarrow> Str (s @ text) | Val v \<Rightarrow> Val v)"

definition add_data_source :: "file_metadata \<Rightarrow> 'v dataframe \<Rightarrow> 'v dataframe" where
  \<comment> \<open>the \<^verbatim>\<open>data_source\<close> column: set to a text in every row, to which the month is then
      appended row by row (every value is a string there)\<close>
  "add_data_source file_metadata df =
     (let df1 = setitem_scalar df ''data_source''
                  (region file_metadata @ ''_'' @ fmt (year file_metadata))
      in if truthy (month file_metadata)
         then df1\<lparr>cols := map (\<lambda>c. if fst c = ''data_source''
                                    then (fst c, (snd c)\<lparr>cells :=
                                           map (add_str (''_'' @ fmt (month file_metadata)))
                                             (cells (snd c))\<rparr>)
                                    else c) (cols df1)\<rparr>
         else df1)"

definition region_corrections ::
  "'v pandas \<Rightarrow> string \<Rightarrow> 'v dataframe \<Rightarrow> py_error + 'v dataframe" where
  \<comment> \<open>\<^verbatim>\<open>if region == 'jc': ... else: ...\<close>\<close>
  "region_corrections lib region' df =
     (if region' = ''jc''
      then try_then (fix_station_id lib ''start_station_id'' df) (\<lambda>df1.
           try_then (fix_station_id lib ''end_station_id'' df1) (\<lambda>df2.
           try_then (prefix_station_names lib df2) (\<lambda>df3.
           Inr (setitem_scalar df3 ''region'' ''jersey_city''))))
      else Inr (setitem_scalar df ''region'' ''new_york''))"

definition transform_data ::
  "'v pandas \<Rightarrow> 'v dataframe \<Rightarrow> schema_dict \<Rightarrow> file_metadata \<Rightarrow> py_error + 'v dataframe" where
  "transform_data lib df schema file_metadata =
     (let region' = region file_metadata;
          column_mapping = build_column_mapping schema region' (labels df);
          df1 = rename df column_mapping
      in try_then (region_corrections lib region' df1) (\<lambda>df2.
           Inr (add_data_source file_metadata (convert_datetime_columns lib df2))))"

section \<open>Predicates used in the proofs\<close>

text \<open>
  A station-name column that the prefixing step leaves as it is: the label is absent, or
  it stands once and every value of its column starts with the marker.
\<close>

definition already_prefixed :: "'v pandas \<Rightarrow> string \<Rightarrow> 'v dataframe \<Rightarrow> bool" where
  "already_prefixed lib label df =
     (label \<in> set (labels df) \<longrightarrow>
        (\<exists>s. getitem df label = Inr (Series s)
             \<and> list_all (\<lambda>c. startswith ''JC - '' (astype_str lib c)) (cells s)))"

text \<open>
  What a step of the transform keeps of a dataset: the rows, and every column in its place
  under its label, unchanged unless its label is \<open>touched\<close>; columns may be appended
  under touched labels.
\<close>

definition kept :: "(string \<Rightarrow> bool) \<Rightarrow> 'v dataframe \<Rightarrow> 'v dataframe \<Rightarrow> bool" where
  "kept touched df df' =
     (nrows df' = nrows df
      \<and> (\<exists>changed extra. cols df' = changed @ extra
            \<and> list_all2 (\<lambda>c c'. fst c' = fst c \<and> (\<not> touched (fst c) \<longrightarrow> c' = c)) (cols df) changed
            \<and> list_all (\<lambda>c. touched (fst c)) extra))"

text \<open>
  The labels whose columns the transform may rewrite after the renaming: the temporal
  columns, \<^verbatim>\<open>region\<close> and \<^verbatim>\<open>data_source\<close>, and for Jersey City the four station columns.
\<close>

definition rewritten :: "string \<Rightarrow> string \<Rightarrow> bool" where
  "rewritten region' label =
     (is_time_column label \<or> label = ''region'' \<or> label = ''data_source''
      \<or> (region' = ''jc'' \<and> label \<in> set [''start_station_id'', ''end_station_id'',
                                           ''start_station_name'', ''end_station_name'']))"

text \<open>
  The conversion loop, column by column: a label that stands once (\<^verbatim>\<open>df[label]\<close> is a
  Series), the Series that \<^verbatim>\<open>pd.to_datetime(..., errors='coerce')\<close> returns, and the columns
  the loop replaces.
\<close>

definition unique_label :: "'v dataframe \<Rightarrow> string \<Rightarrow> bool" where
  "unique_label df label = (length (filter (\<lambda>c. fst c = label) (cols df)) = 1)"

definition coerced :: "'v pandas \<Rightarrow> 'v series \<Rightarrow> 'v series" where
  "coerced lib s = \<lparr>dtype = datetime_dtype lib s, cells = map (coerce_cell lib) (cells s)\<rparr>"

definition converts :: "'v pandas \<Rightarrow> 'v dataframe \<Rightarrow> string \<times> 'v series \<Rightarrow> bool" where
  "converts lib df c =
     (is_time_column (fst c) \<and> unique_label df (fst c) \<and> \<not> to_datetime_raises lib (snd c))"

section \<open>Properties of the string functions\<close>

lemma str_replace_char:
  "str_replace [a] [b] s = map (\<lambda>c. if c = a then b else c) s"
  by (induction s) (simp_all add: str_replace.simps [of "[a]"] startswith_def)

section \<open>Properties of the Column Normalizer\<close>

lemma alias_station_id:
  "nyc_mapping ''station_id'' = Some ''start_station_id''"
  "jc_mapping ''station_id'' = Some ''start_station_id''"
  "nyc_mapping ''start_station_id'' = Some ''start_station_id''"
  "jc_mapping ''start_station_id'' = Some ''start_station_id''"
  by code_simp+

lemma alias_station_name:
  "nyc_mapping ''name'' = Some ''start_station_name''"
  "jc_mapping ''name'' = Some ''start_station_name''"
  "nyc_mapping ''start_station_name'' = Some ''start_station_name''"
  "jc_mapping ''start_station_name'' = Some ''start_station_name''"
  by code_simp+

text \<open>
  C10. The normalizer is not injective on names that are already normalized: in the alias
  table of either region, \<^verbatim>\<open>station_id\<close> and \<^verbatim>\<open>start_station_id\<close> both give
  \<^verbatim>\<open>start_station_id\<close>, and \<^verbatim>\<open>name\<close> and \<^verbatim>\<open>start_station_name\<close> both give
  \<^verbatim>\<open>start_station_name\<close>; so two distinct raw column names of one dataset can receive the
  same canonical name.
\<close>

theorem normalize_column_name_not_injective:
  "normalize_column_name ''station_id'' region' = ''start_station_id''
   \<and> normalize_column_name ''start_station_id'' region' = ''start_station_id''
   \<and> normalize_column_name ''name'' region' = ''start_station_name''
   \<and> normalize_column_name ''start_station_name'' region' = ''start_station_name''
   \<and> \<not> inj (\<lambda>column_name. normalize_column_name column_name region')"
proof -
  have ids: "normalize_column_name ''station_id'' region' = ''start_station_id''"
    "normalize_column_name ''start_station_id'' region' = ''start_station_id''"
    by (simp_all add: normalize_column_name_def str_replace_char alias_station_id)
  have names: "normalize_column_name ''name'' region' = ''start_station_name''"
    "normalize_column_name ''start_station_name'' region' = ''start_station_name''"
    by (simp_all add: normalize_column_name_def str_replace_char alias_station_name)
  have "\<not> inj (\<lambda>column_name. normalize_column_name column_name region')"
  proof
    assume "inj (\<lambda>column_name. normalize_column_name column_name region')"
    from injD [OF this, of "''station_id''" "''start_station_id''"] ids
    show False by simp
  qed
  with ids names show ?thesis by simp
qed

lemma lower_char_space: "is_space (lower_char c) = is_space c"
  by (simp add: is_space_def py_whitespace_def lower_char_def)

lemma is_space_o_lower_char: "is_space \<circ> lower_char = is_space"
  by (rule ext) (simp only: o_apply lower_char_space)

lemma strip_lower: "strip (lower s) = lower (strip s)"
  by (simp add: strip_def lower_def dropWhile_map rev_map is_space_o_lower_char)

lemma strip_padded:
  assumes "list_all is_space l" and "list_all is_space r"
  shows "strip (l @ s @ r) = strip s"
proof -
  have l: "dropWhile is_space (l @ s @ r) = dropWhile is_space (s @ r)"
    using assms(1) by (simp add: list_all_iff)
  have r: "dropWhile is_space (rev r @ xs) = dropWhile is_space xs" for xs
    by (rule dropWhile_append2) (use assms(2) in \<open>simp add: list_all_iff\<close>)
  show ?thesis
  proof (cases "\<forall>c \<in> set s. is_space c")
    case True
    then have "\<forall>c \<in> set (s @ r). is_space c"
      using assms(2) by (auto simp: list_all_iff)
    then have sr: "dropWhile is_space (s @ r) = []"
      by (simp only: dropWhile_eq_Nil_conv)
    from True have s: "dropWhile is_space s = []"
      by (simp only: dropWhile_eq_Nil_conv)
    show ?thesis unfolding strip_def l sr s ..
  next
    case False
    then have "dropWhile is_space (s @ r) = dropWhile is_space s @ r"
      by (auto simp: dropWhile_append)
    then show ?thesis by (simp add: strip_def l r)
  qed
qed

text \<open>
  Both callers of the normalizer pass it \<^verbatim>\<open>col.strip().lower()\<close>; that key is the same for
  two raw names that differ by letter case and by leading or trailing whitespace.
\<close>

lemma caller_key_eq:
  assumes "list_all is_space (l1 @ r1 @ l2 @ r2)" and "lower a = lower b"
  shows "lower (strip (l1 @ a @ r1)) = lower (strip (l2 @ b @ r2))"
proof -
  have "lower (strip (l1 @ a @ r1)) = strip (lower a)"
    using assms(1) by (simp add: strip_padded strip_lower)
  also have "\<dots> = strip (lower b)" by (simp add: assms(2))
  also have "\<dots> = lower (strip (l2 @ b @ r2))"
    using assms(1) by (simp add: strip_padded strip_lower)
  finally show ?thesis .
qed

text \<open>
  C4, as stated: the normalizer gives the same canonical name to raw names that differ
  only by letter case or whitespace. It does not: it neither lowercases nor trims, and it
  turns every space into an underscore of its own.
\<close>

theorem normalize_case_whitespace_counterexample:
  "normalize_column_name ''TripDuration'' ''nyc'' = ''TripDuration''
   \<and> normalize_column_name '' tripduration'' ''nyc'' = ''_tripduration''
   \<and> normalize_column_name ''tripduration'' ''nyc'' = ''trip_duration''
   \<and> normalize_column_name ''start  station id'' ''nyc'' = ''start__station_id''
   \<and> normalize_column_name ''start station id'' ''nyc'' = ''start_station_id''
   \<and> normalize_column_name ''TripDuration'' ''nyc'' \<noteq> normalize_column_name ''tripduration'' ''nyc''"
  by code_simp

text \<open>
  C4, amended. The normalizer only replaces each space by one underscore before the alias
  lookup. Lowercasing and trimming are done by its callers, which pass it
  \<^verbatim>\<open>col.strip().lower()\<close>: for two raw names that differ only by letter case and by
  leading or trailing whitespace, the canonical name computed through that key, and the
  rename target of the transform, are the same for the same region.
\<close>

theorem normalize_after_strip_lower:
  assumes "list_all is_space (l1 @ r1 @ l2 @ r2)" and "lower a = lower b"
  shows "normalize_column_name (lower (strip (l1 @ a @ r1))) region' =
           normalize_column_name (lower (strip (l2 @ b @ r2))) region'
         \<and> rename_target schema region' (l1 @ a @ r1) = rename_target schema region' (l2 @ b @ r2)
         \<and> normalize_column_name column_name region' =
             (let normalized = map (\<lambda>c. if c = CHR '' '' then CHR ''_'' else c) column_name
              in case (if region' = ''nyc'' then nyc_mapping else jc_mapping) normalized of
                   Some canonical \<Rightarrow> canonical
                 | None \<Rightarrow> normalized)"
  using caller_key_eq [OF assms]
  by (simp add: rename_target_def normalize_column_name_def str_replace_char)

theorem normalize_after_strip_lower_witness:
  "list_all is_space ('' '' @ [] @ [] @ [CHR 0x09, CHR '' ''])
   \<and> lower ''Trip Duration'' = lower ''trip duration''
   \<and> normalize_column_name (lower (strip ('' '' @ ''Trip Duration'' @ []))) ''nyc'' =
       normalize_column_name (lower (strip ([] @ ''trip duration'' @ [CHR 0x09, CHR '' '']))) ''nyc''"
proof -
  have h1: "list_all is_space ('' '' @ [] @ [] @ [CHR 0x09, CHR '' ''])"
    by (simp add: is_space_def py_whitespace_def)
  have h2: "lower ''Trip Duration'' = lower ''trip duration''"
    by (simp add: lower_def lower_char_def)
  from normalize_after_strip_lower [OF h1 h2, of "''nyc''", THEN conjunct1] h1 h2
  show ?thesis by simp
qed


section \<open>Properties of the Filename Metadata Extractor\<close>

lemma os_unbound: "load_global module_globals ''os'' = Inl (NameError ''os'')"
  by (simp add: load_global_def module_globals_def py_builtins_def)

text \<open>
  With \<^verbatim>\<open>os\<close> bound, the body computes the metadata of the four identifiers of its
  documentation.
\<close>

lemma parse_filename_examples:
  "extract_metadata_from_filename_in (''os'' # module_globals) ''2021-citibike-tripdata.zip'' =
     Inr \<lparr>year = Some ''2021'', month = None, region = ''nyc'', type = ''annual''\<rparr>"
  "extract_metadata_from_filename_in (''os'' # module_globals) ''202101-citibike-tripdata.csv.zip'' =
     Inr \<lparr>year = Some ''2021'', month = Some ''01'', region = ''nyc'', type = ''monthly''\<rparr>"
  "extract_metadata_from_filename_in (''os'' # module_globals) ''JC-202101-citibike-tripdata.csv.zip'' =
     Inr \<lparr>year = Some ''2021'', month = Some ''01'', region = ''jc'', type = ''monthly''\<rparr>"
  "extract_metadata_from_filename_in (''os'' # module_globals) ''randomfile.csv'' =
     Inr \<lparr>year = None, month = None, region = ''nyc'', type = ''unknown''\<rparr>"
  by code_simp+

text \<open>
  C1. The metadata extractor is to return the metadata of the four example identifiers and
  never to raise. In the module as it is written the call raises \<^verbatim>\<open>NameError\<close> on each of
  the four identifiers, since \<^verbatim>\<open>os\<close> is not imported.
\<close>

theorem extract_metadata_examples_raise:
  "extract_metadata_from_filename ''2021-citibike-tripdata.zip'' = Inl (NameError ''os'')
   \<and> extract_metadata_from_filename ''202101-citibike-tripdata.csv.zip'' = Inl (NameError ''os'')
   \<and> extract_metadata_from_filename ''JC-202101-citibike-tripdata.csv.zip'' =
       Inl (NameError ''os'')
   \<and> extract_metadata_from_filename ''randomfile.csv'' = Inl (NameError ''os'')"
  by (simp add: extract_metadata_from_filename_def extract_metadata_from_filename_in_def
      load_global_def module_globals_def py_builtins_def)

text \<open>
  C2, as stated: each of the three functions that evaluate \<^verbatim>\<open>os\<close> raises \<^verbatim>\<open>NameError\<close>.
  \<^verbatim>\<open>read_file_to_dataframe\<close> does not: its \<^verbatim>\<open>except Exception\<close> catches the error and the
  call returns \<^verbatim>\<open>None\<close>.
\<close>

theorem read_file_to_dataframe_returns_None:
  "read_file_to_dataframe (\<lambda>bucket key. Inr ''tripduration,starttime'')
     (\<lambda>key response. Inr (Some response))
     ''citibike-trips-data-1'' ''result_files/202101-citibike-tripdata.csv'' = Inr None
   \<and> read_file_to_dataframe (\<lambda>bucket key. Inr ''tripduration,starttime'')
     (\<lambda>key response. Inr (Some response))
     ''citibike-trips-data-1'' ''result_files/202101-citibike-tripdata.csv''
       \<noteq> Inl (NameError ''os'')"
  by (simp add: read_file_to_dataframe_def read_file_to_dataframe_in_def os_unbound)

text \<open>
  C2, amended. For every input, \<^verbatim>\<open>extract_metadata_from_filename\<close> and
  \<^verbatim>\<open>generate_destination_key\<close> raise \<^verbatim>\<open>NameError\<close> for the unbound name \<^verbatim>\<open>os\<close> instead of
  returning; \<^verbatim>\<open>read_file_to_dataframe\<close> evaluates the same unbound name inside its
  \<^verbatim>\<open>try\<close> block and returns \<^verbatim>\<open>None\<close>, whatever the S3 client and the readers do.
\<close>

theorem unbound_os_outcomes:
  "extract_metadata_from_filename filename = Inl (NameError ''os'')
   \<and> generate_destination_key file_key file_metadata = Inl (NameError ''os'')
   \<and> read_file_to_dataframe get_object reader bucket key = Inr None"
  by (simp add: extract_metadata_from_filename_def extract_metadata_from_filename_in_def
      generate_destination_key_def generate_destination_key_in_def
      read_file_to_dataframe_def read_file_to_dataframe_in_def os_unbound split: sum.splits)

section \<open>Properties of the Schema Registry\<close>

lemma registry_grows_refl: "registry_grows s s"
  by (simp add: registry_grows_def)

lemma registry_grows_trans:
  assumes "registry_grows s1 s2" and "registry_grows s2 s3"
  shows "registry_grows s1 s3"
  unfolding registry_grows_def
proof (intro conjI allI impI)
  fix k e assume "columns_of s1 k = Some e"
  with assms show "columns_of s3 k = Some e" by (simp add: registry_grows_def)
next
  fix k assume k: "k \<in> dom (columns_of s1)"
  with assms(1) have "k \<in> dom (columns_of s2)" by (auto simp: registry_grows_def)
  with assms k show "mappings_of s3 k = mappings_of s1 k" by (simp add: registry_grows_def)
next
  from assms show "dom (mappings_of s1) \<subseteq> dom (mappings_of s3)"
    unfolding registry_grows_def by blast
next
  fix k e assume "sources_of s1 k = Some e"
  with assms(1) obtain e' ys where e': "sources_of s2 k = Some e'" "src_year e' = src_year e"
    "src_month e' = src_month e" "src_region e' = src_region e" "src_columns e' = src_columns e @ ys"
    unfolding registry_grows_def by blast
  from assms(2) e'(1) obtain e'' zs where e'': "sources_of s3 k = Some e''" "src_year e'' = src_year e'"
    "src_month e'' = src_month e'" "src_region e'' = src_region e'" "src_columns e'' = src_columns e' @ zs"
    unfolding registry_grows_def by blast
  from e' e'' show "\<exists>e'. sources_of s3 k = Some e' \<and> src_year e' = src_year e
                  \<and> src_month e' = src_month e \<and> src_region e' = src_region e
                  \<and> (\<exists>ys. src_columns e' = src_columns e @ ys)" by simp
qed

lemma record_source_column_grows:
  "record_source_column source_key column_name s = Inr s' \<Longrightarrow> registry_grows s s'"
  by (auto simp: record_source_column_def registry_grows_def columns_of_def mappings_of_def
      sources_of_def split: option.splits if_splits)

lemma add_new_column_grows:
  "add_new_column region' year' month' column_name data_type' s = Inr s' \<Longrightarrow> registry_grows s s'"
  by (auto simp: add_new_column_def registry_grows_def columns_of_def mappings_of_def
      sources_of_def Let_def split: option.splits if_splits)

lemma update_column_grows:
  "registry_grows s (fst (update_column region' year' month' source_key df s column))"
  by (auto simp: update_column_def Let_def registry_grows_refl
      split: sum.splits 
      intro: record_source_column_grows 
        registry_grows_trans [OF record_source_column_grows add_new_column_grows])

lemma update_columns_grows:
  "registry_grows s (fst (update_columns region' year' month' source_key df s columns'))"
proof (induction columns' arbitrary: s)
  case Nil
  show ?case by (simp add: registry_grows_refl)
next
  case (Cons column rest)
  obtain s1 err where step: "update_column region' year' month' source_key df s column = (s1, err)"
    by (cases "update_column region' year' month' source_key df s column")
  then have g: "registry_grows s s1"
    using update_column_grows [of s region' year' month' source_key df column] by simp
  show ?case
  proof (cases err)
    case None
    with step g Cons.IH [of s1] show ?thesis
      by (auto intro: registry_grows_trans)
  next
    case (Some e)
    with step g show ?thesis by simp
  qed
qed

lemma ensure_source_grows: "registry_grows s (ensure_source source_key entry s)"
  by (auto simp: ensure_source_def registry_grows_def columns_of_def mappings_of_def
      sources_of_def Let_def split: option.splits)

lemma last_updated_grows: "registry_grows s (s\<lparr>last_updated := t\<rparr>)"
  by (simp add: registry_grows_def columns_of_def mappings_of_def sources_of_def)

lemma update_schema_grows:
  "registry_grows s (fst (update_schema_with_new_columns clk s df file_metadata))"
proof -
  define year' where "year' = (if truthy (year file_metadata) then fmt (year file_metadata) else now_year clk)"
  define source_key where "source_key = source_key_of (region file_metadata) year' (month file_metadata)"
  define s1 where "s1 = ensure_source source_key
            \<lparr>src_year = year', src_month = month file_metadata, src_region = region file_metadata, src_columns = []\<rparr> s"
  obtain s2 err where run: "update_columns (region file_metadata) year' (month file_metadata) source_key df s1 (labels df) = (s2, err)"
    by (cases "update_columns (region file_metadata) year' (month file_metadata) source_key df s1 (labels df)")
  have "registry_grows s s1" by (simp add: s1_def ensure_source_grows)
  moreover have "registry_grows s1 s2"
    using update_columns_grows [of s1 "region file_metadata" year' "month file_metadata" source_key df "labels df"] run
    by simp
  ultimately have g: "registry_grows s s2" by (rule registry_grows_trans)
  have "fst (update_schema_with_new_columns clk s df file_metadata) =
          (case err of Some e \<Rightarrow> s2 | None \<Rightarrow> s2\<lparr>last_updated := Some (now_iso clk)\<rparr>)"
    using run
    by (simp add: update_schema_with_new_columns_def Let_def year'_def [symmetric]
        source_key_def [symmetric] s1_def [symmetric] split: option.splits)
  with g show ?thesis
    by (auto split: option.splits intro: registry_grows_trans [OF _ last_updated_grows])
qed

lemma update_all_grows: "registry_grows s (update_all s calls)"
proof (induction calls arbitrary: s)
  case Nil
  show ?case by (simp add: registry_grows_refl)
next
  case (Cons call calls)
  obtain clk df file_metadata where call: "call = (clk, df, file_metadata)"
    by (cases call)
  show ?case
    unfolding call update_all.simps
    by (rule registry_grows_trans [OF update_schema_grows Cons.IH])
qed

text \<open>
  C7. First seen wins: a raw column name that is a key of \<^verbatim>\<open>columns\<close> keeps its entry
  (data type, first-seen year, month and region, normalized name) and its entry of
  \<^verbatim>\<open>column_mappings\<close> over any later call of the updater, and over any sequence of calls,
  whatever the data type, file or region of the later observation.
\<close>

theorem first_seen_wins:
  assumes "columns_of schema column_name = Some entry"
  shows "columns_of (fst (update_schema_with_new_columns clk schema df file_metadata)) column_name
           = Some entry
         \<and> mappings_of (fst (update_schema_with_new_columns clk schema df file_metadata)) column_name
           = mappings_of schema column_name
         \<and> columns_of (update_all schema calls) column_name = Some entry
         \<and> mappings_of (update_all schema calls) column_name = mappings_of schema column_name"
proof -
  from assms have k: "column_name \<in> dom (columns_of schema)" by auto
  have "registry_grows schema (fst (update_schema_with_new_columns clk schema df file_metadata))"
    by (rule update_schema_grows)
  moreover have "registry_grows schema (update_all schema calls)"
    by (rule update_all_grows)
  ultimately show ?thesis
    using assms k unfolding registry_grows_def by blast
qed

theorem first_seen_wins_witness:
  "columns_of
     \<lparr>columns = Some [''tripduration'' \<mapsto>
        \<lparr>data_type = ''int64'', first_seen_year = ''2020'', first_seen_month = Some ''01'',
           first_seen_region = ''nyc'', normalized_name = ''trip_duration''\<rparr>],
      column_mappings = Some [''tripduration'' \<mapsto> ''trip_duration''],
      sources = Some Map.empty, last_updated = None\<rparr> ''tripduration''
   = Some \<lparr>data_type = ''int64'', first_seen_year = ''2020'', first_seen_month = Some ''01'',
           first_seen_region = ''nyc'', normalized_name = ''trip_duration''\<rparr>
   \<and> columns_of (fst (update_schema_with_new_columns \<lparr>now_year = ''2026'', now_iso = ''2026-11-04T09:00:00''\<rparr>
     \<lparr>columns = Some [''tripduration'' \<mapsto>
        \<lparr>data_type = ''int64'', first_seen_year = ''2020'', first_seen_month = Some ''01'',
           first_seen_region = ''nyc'', normalized_name = ''trip_duration''\<rparr>],
      column_mappings = Some [''tripduration'' \<mapsto> ''trip_duration''],
      sources = Some Map.empty, last_updated = None\<rparr>
     \<lparr>nrows = 1, cols = [(''TripDuration '', \<lparr>dtype = ''object'', cells = [Str ''n/a'' :: unit cell]\<rparr>)]\<rparr>
     \<lparr>year = Some ''2021'', month = Some ''02'', region = ''jc'', type = ''monthly''\<rparr>)) ''tripduration''
   = Some \<lparr>data_type = ''int64'', first_seen_year = ''2020'', first_seen_month = Some ''01'',
           first_seen_region = ''nyc'', normalized_name = ''trip_duration''\<rparr>"
proof -
  let ?entry = "\<lparr>data_type = ''int64'', first_seen_year = ''2020'', first_seen_month = Some ''01'',
           first_seen_region = ''nyc'', normalized_name = ''trip_duration''\<rparr>"
  let ?schema = "\<lparr>columns = Some [''tripduration'' \<mapsto> ?entry],
      column_mappings = Some [''tripduration'' \<mapsto> ''trip_duration''],
      sources = Some Map.empty, last_updated = None\<rparr>"
  have h: "columns_of ?schema ''tripduration'' = Some ?entry"
    by (simp add: columns_of_def)
  from first_seen_wins [OF h, THEN conjunct1] h show ?thesis by simp
qed

text \<open>
  C6. The registry is append-only: over any sequence of calls of the updater, every key of
  \<^verbatim>\<open>columns\<close>, \<^verbatim>\<open>column_mappings\<close> and \<^verbatim>\<open>sources\<close> stays a key, and the column list of
  every source entry is only extended.
\<close>

theorem registry_append_only:
  "dom (columns_of schema) \<subseteq> dom (columns_of (update_all schema calls))
   \<and> dom (mappings_of schema) \<subseteq> dom (mappings_of (update_all schema calls))
   \<and> dom (sources_of schema) \<subseteq> dom (sources_of (update_all schema calls))
   \<and> (\<forall>k e. sources_of schema k = Some e \<longrightarrow>
         (\<exists>e'. sources_of (update_all schema calls) k = Some e'
               \<and> (\<exists>ys. src_columns e' = src_columns e @ ys)))"
proof -
  have g: "registry_grows schema (update_all schema calls)"
    by (rule update_all_grows)
  from g have "dom (columns_of schema) \<subseteq> dom (columns_of (update_all schema calls))"
    unfolding registry_grows_def by blast
  moreover from g have "dom (mappings_of schema) \<subseteq> dom (mappings_of (update_all schema calls))"
    unfolding registry_grows_def by blast
  moreover from g have "dom (sources_of schema) \<subseteq> dom (sources_of (update_all schema calls))"
    unfolding registry_grows_def by blast
  moreover from g have "\<forall>k e. sources_of schema k = Some e \<longrightarrow>
         (\<exists>e'. sources_of (update_all schema calls) k = Some e'
               \<and> (\<exists>ys. src_columns e' = src_columns e @ ys))"
    unfolding registry_grows_def by blast
  ultimately show ?thesis by simp
qed

theorem registry_append_only_witness:
  "sources_of
     \<lparr>columns = Some Map.empty, column_mappings = Some Map.empty,
      sources = Some [''nyc_2021_01'' \<mapsto>
        \<lparr>src_year = ''2021'', src_month = Some ''01'', src_region = ''nyc'',
           src_columns = [''tripduration'']\<rparr>],
      last_updated = None\<rparr> ''nyc_2021_01''
   = Some \<lparr>src_year = ''2021'', src_month = Some ''01'', src_region = ''nyc'',
            src_columns = [''tripduration'']\<rparr>
   \<and> (\<exists>e'. sources_of (update_all
     \<lparr>columns = Some Map.empty, column_mappings = Some Map.empty,
      sources = Some [''nyc_2021_01'' \<mapsto>
        \<lparr>src_year = ''2021'', src_month = Some ''01'', src_region = ''nyc'',
           src_columns = [''tripduration'']\<rparr>],
      last_updated = None\<rparr>
     [(\<lparr>now_year = ''2026'', now_iso = ''2026-11-04T09:00:00''\<rparr>,
       \<lparr>nrows = 1, cols = [(''starttime'', \<lparr>dtype = ''object'', cells = [Str ''x'' :: unit cell]\<rparr>)]\<rparr>,
       \<lparr>year = Some ''2021'', month = Some ''01'', region = ''nyc'', type = ''monthly''\<rparr>)])
       ''nyc_2021_01'' = Some e'
      \<and> (\<exists>ys. src_columns e' = [''tripduration''] @ ys))"
proof -
  let ?entry = "\<lparr>src_year = ''2021'', src_month = Some ''01'', src_region = ''nyc'',
           src_columns = [''tripduration'']\<rparr>"
  let ?schema = "\<lparr>columns = Some Map.empty, column_mappings = Some Map.empty,
      sources = Some [''nyc_2021_01'' \<mapsto> ?entry], last_updated = None\<rparr>"
  let ?calls = "[(\<lparr>now_year = ''2026'', now_iso = ''2026-11-04T09:00:00''\<rparr>,
       \<lparr>nrows = 1, cols = [(''starttime'', \<lparr>dtype = ''object'', cells = [Str ''x'' :: unit cell]\<rparr>)]\<rparr>,
       \<lparr>year = Some ''2021'', month = Some ''01'', region = ''nyc'', type = ''monthly''\<rparr>)]"
  have h: "sources_of ?schema ''nyc_2021_01'' = Some ?entry"
    by (simp add: sources_of_def)
  from registry_append_only [of ?schema ?calls, THEN conjunct2, THEN conjunct2, THEN conjunct2,
      THEN spec, THEN spec, THEN mp, OF h] h
  show ?thesis by simp
qed

text \<open>In that example the call records the new column after the old one.\<close>

lemma update_all_example:
  "sources_of (update_all
     \<lparr>columns = Some Map.empty, column_mappings = Some Map.empty,
      sources = Some [''nyc_2021_01'' \<mapsto>
        \<lparr>src_year = ''2021'', src_month = Some ''01'', src_region = ''nyc'',
           src_columns = [''tripduration'']\<rparr>],
      last_updated = None\<rparr>
     [(\<lparr>now_year = ''2026'', now_iso = ''2026-11-04T09:00:00''\<rparr>,
       \<lparr>nrows = 1, cols = [(''starttime'', \<lparr>dtype = ''object'', cells = [Str ''x'' :: unit cell]\<rparr>)]\<rparr>,
       \<lparr>year = Some ''2021'', month = Some ''01'', region = ''nyc'', type = ''monthly''\<rparr>)])
       ''nyc_2021_01'' = Some \<lparr>src_year = ''2021'', src_month = Some ''01'', src_region = ''nyc'',
           src_columns = [''tripduration'', ''starttime'']\<rparr>"
  by code_simp

section \<open>Properties of datasets\<close>

lemma startswith_append [simp]: "startswith p (p @ s)"
  by (simp add: startswith_def)

lemma getitem_Series_iff:
  "getitem df label = Inr (Series s) \<longleftrightarrow> (\<exists>c. filter (\<lambda>c. fst c = label) (cols df) = [c] \<and> snd c = s)"
  by (auto simp: getitem_def split: list.splits)

lemma getitem_SeriesD:
  assumes "getitem df label = Inr (Series s)"
  shows "label \<in> set (labels df)" and "\<And>c. c \<in> set (cols df) \<Longrightarrow> fst c = label \<Longrightarrow> snd c = s"
proof -
  from assms obtain c0 where c0: "filter (\<lambda>c. fst c = label) (cols df) = [c0]" "snd c0 = s"
    by (auto simp: getitem_Series_iff)
  then have "c0 \<in> set (filter (\<lambda>c. fst c = label) (cols df))" by simp
  then show "label \<in> set (labels df)" by (auto simp: labels_def)
  fix c assume "c \<in> set (cols df)" "fst c = label"
  then have "c \<in> set (filter (\<lambda>c. fst c = label) (cols df))" by simp
  with c0 show "snd c = s" by simp
qed

lemma filter_label_map:
  assumes "\<And>c. fst (f c) = fst c"
  shows "filter (\<lambda>c. fst c = label) (map f xs) = map f (filter (\<lambda>c. fst c = label) xs)"
  by (induction xs) (simp_all add: assms)

lemma labels_setitem_known:
  "label \<in> set (labels df) \<Longrightarrow> labels (setitem df label s) = labels df"
  by (simp add: setitem_def labels_def comp_def cong: map_cong)

lemma getitem_setitem_same:
  assumes "getitem df label = Inr (Series s0)"
  shows "getitem (setitem df label s) label = Inr (Series s)"
proof -
  from assms obtain c0 where c0: "filter (\<lambda>c. fst c = label) (cols df) = [c0]"
    by (auto simp: getitem_Series_iff)
  have "filter (\<lambda>c. fst c = label) (map (\<lambda>c. if fst c = label then (label, s) else c) (cols df))
          = map (\<lambda>c. if fst c = label then (label, s) else c) (filter (\<lambda>c. fst c = label) (cols df))"
    by (rule filter_label_map) simp
  moreover from c0 have "c0 \<in> set (filter (\<lambda>c. fst c = label) (cols df))" by simp
  then have "fst c0 = label" by simp
  ultimately show ?thesis
    using c0 getitem_SeriesD(1) [OF assms] by (simp add: getitem_Series_iff setitem_def)
qed

lemma filter_other_label:
  "label' \<noteq> label \<Longrightarrow>
   filter (\<lambda>c. fst c = label') (map (\<lambda>c. if fst c = label then (label, s) else c) xs)
     = filter (\<lambda>c. fst c = label') xs"
  by (induction xs) auto

lemma getitem_setitem_other:
  assumes "label' \<noteq> label"
  shows "getitem (setitem df label s) label' = getitem df label'"
  using assms by (simp add: getitem_def setitem_def filter_other_label)

lemma setitem_same_series:
  assumes "getitem df label = Inr (Series s)"
  shows "setitem df label s = df"
proof -
  have "map (\<lambda>c. if fst c = label then (label, s) else c) (cols df) = cols df"
    using getitem_SeriesD(2) [OF assms] by (auto intro!: map_idI simp: prod_eq_iff)
  with getitem_SeriesD(1) [OF assms] show ?thesis by (simp add: setitem_def)
qed

lemma kept_refl: "kept touched df df"
  unfolding kept_def
  by (intro conjI exI [of _ "cols df"] exI [of _ "[]"]) (simp_all add: list_all2_same)

lemma kept_mono:
  assumes "kept touched df df'" and "\<And>l. touched l \<Longrightarrow> touched' l"
  shows "kept touched' df df'"
proof -
  from assms(1) obtain changed extra where c: "nrows df' = nrows df" "cols df' = changed @ extra"
    "list_all2 (\<lambda>c c'. fst c' = fst c \<and> (\<not> touched (fst c) \<longrightarrow> c' = c)) (cols df) changed"
    "list_all (\<lambda>c. touched (fst c)) extra"
    unfolding kept_def by blast
  from c(3) have "list_all2 (\<lambda>c c'. fst c' = fst c \<and> (\<not> touched' (fst c) \<longrightarrow> c' = c)) (cols df) changed"
    by (rule list_all2_mono) (use assms(2) in auto)
  moreover from c(4) have "list_all (\<lambda>c. touched' (fst c)) extra"
    by (auto simp: list_all_iff assms(2))
  ultimately show ?thesis using c(1,2) unfolding kept_def by blast
qed

lemma kept_trans:
  assumes "kept touched df df'" and "kept touched df' df''"
  shows "kept touched df df''"
proof -
  let ?P = "\<lambda>c c'. fst c' = fst c \<and> (\<not> touched (fst c) \<longrightarrow> c' = c)"
  from assms(1) obtain ch1 ex1 where 1: "nrows df' = nrows df" "cols df' = ch1 @ ex1"
    "list_all2 ?P (cols df) ch1" "list_all (\<lambda>c. touched (fst c)) ex1"
    unfolding kept_def by blast
  from assms(2) obtain ch2 ex2 where 2: "nrows df'' = nrows df'" "cols df'' = ch2 @ ex2"
    "list_all2 ?P (cols df') ch2" "list_all (\<lambda>c. touched (fst c)) ex2"
    unfolding kept_def by blast
  from 2(3) 1(2) obtain a b where ab: "ch2 = a @ b" "list_all2 ?P ch1 a" "list_all2 ?P ex1 b"
    by (auto simp: list_all2_append1)
  have "list_all2 ?P (cols df) a"
    by (rule list_all2_trans [OF _ 1(3) ab(2)]) auto
  moreover have "list_all (\<lambda>c. touched (fst c)) b"
    using ab(3) 1(4) by (induction rule: list_all2_induct) auto
  ultimately show ?thesis
    unfolding kept_def using 1(1) 2(1,2,4) ab(1)
    by (intro conjI exI [of _ a] exI [of _ "b @ ex2"]) simp_all
qed

lemma kept_filter:
  assumes "kept touched df df'" and "\<not> touched label"
  shows "filter (\<lambda>c. fst c = label) (cols df') = filter (\<lambda>c. fst c = label) (cols df)"
proof -
  let ?P = "\<lambda>c c'. fst c' = fst c \<and> (\<not> touched (fst c) \<longrightarrow> c' = c)"
  from assms(1) obtain changed extra where c: "cols df' = changed @ extra"
    "list_all2 ?P (cols df) changed" "list_all (\<lambda>c. touched (fst c)) extra"
    unfolding kept_def by blast
  from c(2) have "filter (\<lambda>c. fst c = label) changed = filter (\<lambda>c. fst c = label) (cols df)"
    by (induction rule: list_all2_induct) (use assms(2) in auto)
  moreover from c(3) assms(2) have "filter (\<lambda>c. fst c = label) extra = []"
    by (auto simp: list_all_iff filter_empty_conv)
  ultimately show ?thesis by (simp add: c(1))
qed

lemma kept_getitem:
  "kept touched df df' \<Longrightarrow> \<not> touched label \<Longrightarrow> getitem df' label = getitem df label"
  by (simp add: getitem_def kept_filter)

lemma kept_setitem: "touched label \<Longrightarrow> kept touched df (setitem df label s)"
proof (cases "label \<in> set (labels df)")
  assume t: "touched label"
  case True
  have "list_all2 (\<lambda>c c'. fst c' = fst c \<and> (\<not> touched (fst c) \<longrightarrow> c' = c)) (cols df)
          (map (\<lambda>c. if fst c = label then (label, s) else c) (cols df))"
    using t by (simp add: list_all2_map2 list_all2_same)
  with True show ?thesis
    unfolding kept_def
    by (intro conjI exI [of _ "map (\<lambda>c. if fst c = label then (label, s) else c) (cols df)"]
        exI [of _ "[]"]) (simp_all add: setitem_def)
next
  assume t: "touched label"
  case False
  with t show ?thesis
    unfolding kept_def
    by (intro conjI exI [of _ "cols df"] exI [of _ "[(label, s)]"])
      (simp_all add: setitem_def list_all2_same)
qed


section \<open>Properties of the Transform Engine\<close>

lemma prefix_cell_prefixed: "startswith ''JC - '' (astype_str lib (prefix_cell lib c))"
  by (simp add: prefix_cell_def astype_str_def startswith_def)

lemma prefix_cell_fixed: "startswith ''JC - '' (astype_str lib c) \<Longrightarrow> prefix_cell lib c = c"
  by (simp add: prefix_cell_def)

lemma prefix_cell_idem: "prefix_cell lib (prefix_cell lib c) = prefix_cell lib c"
  by (rule prefix_cell_fixed) (rule prefix_cell_prefixed)

lemma prefix_station_name_prefixes:
  assumes "prefix_station_name lib label df = Inr df'"
  shows "already_prefixed lib label df'"
proof (cases "label \<in> set (labels df)")
  case False
  with assms show ?thesis by (simp add: prefix_station_name_def already_prefixed_def)
next
  case True
  with assms obtain s where s: "getitem df label = Inr (Series s)"
    by (auto simp: prefix_station_name_def try_then_def split: sum.splits selection.splits)
  with assms True obtain dt where
    df': "df' = setitem df label \<lparr>dtype = dt, cells = map (prefix_cell lib) (cells s)\<rparr>"
    by (auto simp: prefix_station_name_def try_then_def Let_def)
  from getitem_setitem_same [OF s] show ?thesis
    by (auto simp: already_prefixed_def df' list_all_iff prefix_cell_prefixed)
qed

lemma prefix_station_name_fixed:
  assumes "already_prefixed lib label df"
  shows "prefix_station_name lib label df = Inr df"
proof (cases "label \<in> set (labels df)")
  case False
  then show ?thesis by (simp add: prefix_station_name_def)
next
  case True
  with assms obtain s where s: "getitem df label = Inr (Series s)"
    and p: "list_all (\<lambda>c. startswith ''JC - '' (astype_str lib c)) (cells s)"
    by (auto simp: already_prefixed_def)
  from p have "map (prefix_cell lib) (cells s) = cells s"
    by (auto intro!: map_idI simp: list_all_iff prefix_cell_fixed)
  moreover from p have "True \<notin> set (map (\<lambda>c. \<not> startswith ''JC - '' (astype_str lib c)) (cells s))"
    by (auto simp: list_all_iff)
  ultimately show ?thesis
    using True s by (simp add: prefix_station_name_def try_then_def Let_def setitem_same_series)
qed

lemma prefix_station_name_other:
  assumes "already_prefixed lib label df" and "prefix_station_name lib label' df = Inr df'"
    and "label \<noteq> label'"
  shows "already_prefixed lib label df'"
proof (cases "label' \<in> set (labels df)")
  case False
  with assms show ?thesis by (simp add: prefix_station_name_def)
next
  case True
  with assms(2) obtain s where "df' = setitem df label' s"
    by (auto simp: prefix_station_name_def try_then_def Let_def split: sum.splits selection.splits)
  with assms(1,3) True show ?thesis
    by (simp add: already_prefixed_def getitem_setitem_other labels_setitem_known)
qed

lemma prefix_station_names_fixed:
  assumes "prefix_station_names lib df = Inr df'"
  shows "prefix_station_names lib df' = Inr df'"
proof -
  from assms obtain df1 where
    1: "prefix_station_name lib ''start_station_name'' df = Inr df1" and
    2: "prefix_station_name lib ''end_station_name'' df1 = Inr df'"
    by (auto simp: prefix_station_names_def try_then_def split: sum.splits)
  have "already_prefixed lib ''start_station_name'' df'"
    by (rule prefix_station_name_other [OF prefix_station_name_prefixes [OF 1] 2]) simp
  moreover have "already_prefixed lib ''end_station_name'' df'"
    by (rule prefix_station_name_prefixes [OF 2])
  ultimately show ?thesis
    by (simp add: prefix_station_names_def try_then_def prefix_station_name_fixed)
qed

lemma fix_station_id_kept:
  assumes "fix_station_id lib label df = Inr df'"
  shows "kept (\<lambda>l. l = label) df df'"
proof -
  from assms have "df' = df \<or> (\<exists>s. df' = setitem df label s)"
    by (auto simp: fix_station_id_def try_then_def Let_def
        split: if_splits sum.splits selection.splits option.splits)
  then show ?thesis by (auto simp: kept_refl kept_setitem)
qed

lemma prefix_station_name_kept:
  assumes "prefix_station_name lib label df = Inr df'"
  shows "kept (\<lambda>l. l = label) df df'"
proof -
  from assms have "df' = df \<or> (\<exists>s. df' = setitem df label s)"
    by (auto simp: prefix_station_name_def try_then_def Let_def
        split: if_splits sum.splits selection.splits)
  then show ?thesis by (auto simp: kept_refl kept_setitem)
qed

lemma prefix_station_names_kept:
  assumes "prefix_station_names lib df = Inr df'"
  shows "kept (\<lambda>l. l = ''start_station_name'' \<or> l = ''end_station_name'') df df'"
proof -
  from assms obtain df1 where
    1: "prefix_station_name lib ''start_station_name'' df = Inr df1" and
    2: "prefix_station_name lib ''end_station_name'' df1 = Inr df'"
    by (auto simp: prefix_station_names_def try_then_def split: sum.splits)
  show ?thesis
    by (rule kept_trans [OF kept_mono [OF prefix_station_name_kept [OF 1]]
          kept_mono [OF prefix_station_name_kept [OF 2]]]) simp_all
qed

lemma convert_column_kept: "kept is_time_column df (convert_column lib col df)"
  by (auto simp: convert_column_def kept_refl kept_setitem split: sum.splits)

lemma fold_convert_column_kept: "kept is_time_column df (fold (convert_column lib) ls df)"
proof (induction ls arbitrary: df)
  case Nil
  show ?case by (simp add: kept_refl)
next
  case (Cons col ls)
  show ?case
    using kept_trans [OF convert_column_kept Cons.IH] by simp
qed

lemma convert_datetime_columns_kept: "kept is_time_column df (convert_datetime_columns lib df)"
  by (simp add: convert_datetime_columns_def fold_convert_column_kept)

lemma add_data_source_kept: "kept (\<lambda>l. l = ''data_source'') df (add_data_source file_metadata df)"
proof -
  let ?t = "\<lambda>l. l = ''data_source''"
  define df1 where "df1 = setitem_scalar df ''data_source''
                  (region file_metadata @ ''_'' @ fmt (year file_metadata))"
  have 1: "kept ?t df df1"
    by (simp add: df1_def setitem_scalar_def kept_setitem)
  have 2: "kept ?t df1 (df1\<lparr>cols := map (\<lambda>c. if fst c = ''data_source'' then (fst c, f (snd c)) else c) (cols df1)\<rparr>)" for f
    unfolding kept_def
    by (intro conjI exI [of _ "map (\<lambda>c. if fst c = ''data_source'' then (fst c, f (snd c)) else c) (cols df1)"]
        exI [of _ "[]"]) (simp_all add: list_all2_map2 list_all2_same)
  note 3 = kept_trans [OF 1 2 [of "\<lambda>s. s\<lparr>cells :=
              map (add_str (''_'' @ fmt (month file_metadata))) (cells s)\<rparr>"]]
  show ?thesis
    unfolding add_data_source_def Let_def df1_def [symmetric]
    using 1 3 by (cases "truthy (month file_metadata)") (simp_all only: if_True if_False)
qed

text \<open>
  C8. The station-name prefixing step of the Jersey City branch is idempotent: applied to
  its own result it returns that result unchanged (and where it raises, it raises both
  times). A value that already starts with \<^verbatim>\<open>JC - \<close> is kept as it is, so the step never
  puts a second prefix in front of one: a doubled prefix in its output was in its input.
\<close>

theorem prefix_station_names_idempotent:
  "try_then (prefix_station_names lib df) (prefix_station_names lib) = prefix_station_names lib df
   \<and> prefix_cell lib (prefix_cell lib c) = prefix_cell lib c
   \<and> (startswith ''JC - '' (astype_str lib c) \<longrightarrow> prefix_cell lib c = c)
   \<and> (startswith ''JC - JC - '' (astype_str lib (prefix_cell lib c)) \<longrightarrow>
        startswith ''JC - JC - '' (astype_str lib c))"
proof -
  have "try_then (prefix_station_names lib df) (prefix_station_names lib) = prefix_station_names lib df"
    by (cases "prefix_station_names lib df") (simp_all add: try_then_def prefix_station_names_fixed)
  moreover have "startswith ''JC - JC - '' (astype_str lib (prefix_cell lib c)) \<longrightarrow>
        startswith ''JC - JC - '' (astype_str lib c)"
    by (auto simp: prefix_cell_def astype_str_def startswith_def)
  ultimately show ?thesis
    by (simp add: prefix_cell_idem prefix_cell_fixed)
qed

theorem prefix_station_names_idempotent_witness:
  "startswith ''JC - ''
     (astype_str \<lparr>py_str = (\<lambda>v :: unit. ''nan''), parse_datetime = (\<lambda>c. None), NaT = (),
                   to_datetime_raises = (\<lambda>s. False),
                   datetime_dtype = (\<lambda>s. ''datetime64[ns]''), to_numeric = (\<lambda>s. None)\<rparr>
        (Str ''JC - Grove St''))
   \<and> prefix_cell \<lparr>py_str = (\<lambda>v :: unit. ''nan''), parse_datetime = (\<lambda>c. None), NaT = (),
                    to_datetime_raises = (\<lambda>s. False),
                    datetime_dtype = (\<lambda>s. ''datetime64[ns]''), to_numeric = (\<lambda>s. None)\<rparr>
        (Str ''JC - Grove St'') = Str ''JC - Grove St''"
proof -
  let ?lib = "\<lparr>py_str = (\<lambda>v :: unit. ''nan''), parse_datetime = (\<lambda>c. None), NaT = (),
                to_datetime_raises = (\<lambda>s. False),
                datetime_dtype = (\<lambda>s. ''datetime64[ns]''), to_numeric = (\<lambda>s. None)\<rparr>"
  have h: "startswith ''JC - '' (astype_str ?lib (Str ''JC - Grove St''))"
    by (simp add: startswith_def astype_str_def)
  from prefix_station_names_idempotent [of ?lib _ "Str ''JC - Grove St''",
      THEN conjunct2, THEN conjunct2, THEN conjunct1, THEN mp, OF h] h
  show ?thesis by simp
qed

lemma fold_upd_lookup:
  "fold (\<lambda>col m. m(col \<mapsto> g col)) ls m0 l = (if l \<in> set ls then Some (g l) else m0 l)"
  by (induction ls arbitrary: m0) auto

lemma rename_build_column_mapping:
  "rename df (build_column_mapping schema region' (labels df)) =
     df\<lparr>cols := map (\<lambda>c. (rename_target schema region' (fst c), snd c)) (cols df)\<rparr>"
  by (simp add: rename_def build_column_mapping_def fold_upd_lookup labels_def)

lemma region_corrections_kept:
  assumes "region_corrections lib region' df = Inr df'"
  shows "kept (\<lambda>l. l = ''region'' \<or> (region' = ''jc'' \<and> l \<in> set [''start_station_id'',
           ''end_station_id'', ''start_station_name'', ''end_station_name''])) df df'"
proof (cases "region' = ''jc''")
  case False
  with assms show ?thesis
    by (auto simp: region_corrections_def setitem_scalar_def intro: kept_setitem)
next
  case True
  let ?t = "\<lambda>l. l = ''region'' \<or> (region' = ''jc'' \<and> l \<in> set [''start_station_id'',
           ''end_station_id'', ''start_station_name'', ''end_station_name''])"
  from assms True obtain df1 df2 df3 where
    1: "fix_station_id lib ''start_station_id'' df = Inr df1" and
    2: "fix_station_id lib ''end_station_id'' df1 = Inr df2" and
    3: "prefix_station_names lib df2 = Inr df3" and
    4: "df' = setitem_scalar df3 ''region'' ''jersey_city''"
    by (auto simp: region_corrections_def try_then_def split: sum.splits)
  have "kept ?t df df1"
    by (rule kept_mono [OF fix_station_id_kept [OF 1]]) (simp add: True)
  moreover have "kept ?t df1 df2"
    by (rule kept_mono [OF fix_station_id_kept [OF 2]]) (simp add: True)
  moreover have "kept ?t df2 df3"
    by (rule kept_mono [OF prefix_station_names_kept [OF 3]]) (auto simp: True)
  moreover have "kept ?t df3 df'"
    unfolding 4 setitem_scalar_def by (rule kept_setitem) simp
  ultimately show ?thesis by (blast intro: kept_trans)
qed

lemma transform_data_kept:
  assumes "transform_data lib df schema file_metadata = Inr df'"
  shows "kept (rewritten (region file_metadata))
           (rename df (build_column_mapping schema (region file_metadata) (labels df))) df'"
proof -
  let ?r = "region file_metadata"
  let ?df1 = "rename df (build_column_mapping schema ?r (labels df))"
  from assms obtain df2 where
    2: "region_corrections lib ?r ?df1 = Inr df2" and
    3: "df' = add_data_source file_metadata (convert_datetime_columns lib df2)"
    by (auto simp: transform_data_def Let_def try_then_def split: sum.splits)
  have "kept (rewritten ?r) ?df1 df2"
    by (rule kept_mono [OF region_corrections_kept [OF 2]]) (auto simp: rewritten_def)
  moreover have "kept (rewritten ?r) df2 (convert_datetime_columns lib df2)"
    by (rule kept_mono [OF convert_datetime_columns_kept]) (simp add: rewritten_def)
  moreover have "kept (rewritten ?r) (convert_datetime_columns lib df2) df'"
    unfolding 3 by (rule kept_mono [OF add_data_source_kept]) (simp add: rewritten_def)
  ultimately show ?thesis by (blast intro: kept_trans)
qed

lemma kept_nth:
  assumes "kept touched df df'" and "i < length (cols df)"
  shows "i < length (cols df')" and "fst (cols df' ! i) = fst (cols df ! i)"
    and "\<not> touched (fst (cols df ! i)) \<Longrightarrow> cols df' ! i = cols df ! i"
proof -
  from assms(1) obtain changed extra where c: "cols df' = changed @ extra"
    "list_all2 (\<lambda>c c'. fst c' = fst c \<and> (\<not> touched (fst c) \<longrightarrow> c' = c)) (cols df) changed"
    unfolding kept_def by blast
  from c(2) have len: "length changed = length (cols df)" by (simp add: list_all2_lengthD)
  with assms(2) c(1) show "i < length (cols df')" by simp
  from c(2) assms(2) have "fst (changed ! i) = fst (cols df ! i)"
    "\<not> touched (fst (cols df ! i)) \<longrightarrow> changed ! i = cols df ! i"
    by (simp_all add: list_all2_conv_all_nth)
  moreover from len assms(2) c(1) have "cols df' ! i = changed ! i" by (simp add: nth_append)
  ultimately show "fst (cols df' ! i) = fst (cols df ! i)"
    and "\<not> touched (fst (cols df ! i)) \<Longrightarrow> cols df' ! i = cols df ! i" by simp_all
qed

lemma transform_data_returns:
  assumes "region file_metadata \<noteq> ''jc''"
  shows "\<exists>df'. transform_data lib df schema file_metadata = Inr df'"
  using assms by (simp add: transform_data_def Let_def region_corrections_def try_then_def)

text \<open>
  C3, amended. The transform has no collision check. For a region other than \<^verbatim>\<open>jc\<close> it
  returns a dataset for every input, raising nothing. Whenever it returns, every input
  column is kept in its place under its canonical label, and its values are unchanged
  unless the label is one the transform rewrites: two raw columns with the same canonical
  name both stay in the result, under the same label.
\<close>

theorem transform_keeps_colliding_columns:
  "(region file_metadata \<noteq> ''jc'' \<longrightarrow> (\<exists>df'. transform_data lib df schema file_metadata = Inr df'))
   \<and> (transform_data lib df schema file_metadata = Inr df' \<longrightarrow>
        nrows df' = nrows df \<and> length (cols df) \<le> length (cols df')
        \<and> (\<forall>i < length (cols df).
              fst (cols df' ! i) = rename_target schema (region file_metadata) (fst (cols df ! i))
              \<and> (\<not> rewritten (region file_metadata) (fst (cols df' ! i)) \<longrightarrow>
                   snd (cols df' ! i) = snd (cols df ! i))))"
proof (intro conjI impI allI)
  assume "region file_metadata \<noteq> ''jc''"
  then show "\<exists>df'. transform_data lib df schema file_metadata = Inr df'"
    by (rule transform_data_returns)
next
  let ?df1 = "rename df (build_column_mapping schema (region file_metadata) (labels df))"
  assume "transform_data lib df schema file_metadata = Inr df'"
  then have k: "kept (rewritten (region file_metadata)) ?df1 df'"
    by (rule transform_data_kept)
  have cols1: "cols ?df1 = map (\<lambda>c. (rename_target schema (region file_metadata) (fst c), snd c)) (cols df)"
    by (simp add: rename_build_column_mapping)
  from k show "nrows df' = nrows df"
    by (simp add: kept_def rename_def)
  from k show "length (cols df) \<le> length (cols df')"
    by (auto simp: kept_def cols1 dest: list_all2_lengthD)
  fix i assume i: "i < length (cols df)"
  then have i1: "i < length (cols ?df1)" by (simp add: cols1)
  from kept_nth(2) [OF k i1] i
  show l: "fst (cols df' ! i) = rename_target schema (region file_metadata) (fst (cols df ! i))"
    by (simp add: cols1)
  assume "\<not> rewritten (region file_metadata) (fst (cols df' ! i))"
  with l kept_nth(3) [OF k i1] i show "snd (cols df' ! i) = snd (cols df ! i)"
    by (simp add: cols1)
qed

text \<open>
  C3, as stated: a dataset with two raw columns of the same canonical name makes the
  transform raise. It does not: for the New York dataset below, whose columns
  \<^verbatim>\<open>station_id\<close> and \<^verbatim>\<open>start_station_id\<close> both become \<^verbatim>\<open>start_station_id\<close>, the transform
  returns a dataset with both columns under that label.
\<close>

theorem transform_collision_counterexample:
  "transform_data
     \<lparr>py_str = (\<lambda>v :: unit. ''nan''), parse_datetime = (\<lambda>c. None), NaT = (),
        to_datetime_raises = (\<lambda>s. False),
        datetime_dtype = (\<lambda>s. ''datetime64[ns]''), to_numeric = (\<lambda>s. None)\<rparr>
     \<lparr>nrows = 2,
        cols = [(''station_id'', \<lparr>dtype = ''object'', cells = [Str ''A1'', Str ''A2'']\<rparr>),
                (''start_station_id'', \<lparr>dtype = ''object'', cells = [Str ''B1'', Str ''B2'']\<rparr>)]\<rparr>
     \<lparr>columns = Some Map.empty, column_mappings = Some Map.empty, sources = Some Map.empty,
        last_updated = None\<rparr>
     \<lparr>year = Some ''2021'', month = Some ''01'', region = ''nyc'', type = ''monthly''\<rparr>
   = Inr \<lparr>nrows = 2,
        cols = [(''start_station_id'', \<lparr>dtype = ''object'', cells = [Str ''A1'', Str ''A2'']\<rparr>),
                (''start_station_id'', \<lparr>dtype = ''object'', cells = [Str ''B1'', Str ''B2'']\<rparr>),
                (''region'', \<lparr>dtype = ''object'', cells = [Str ''new_york'', Str ''new_york'']\<rparr>),
                (''data_source'',
                 \<lparr>dtype = ''object'', cells = [Str ''nyc_2021_01'', Str ''nyc_2021_01'']\<rparr>)]\<rparr>"
  by code_simp

theorem transform_keeps_colliding_columns_witness:
  "region \<lparr>year = Some ''2021'', month = Some ''01'', region = ''nyc'', type = ''monthly''\<rparr> \<noteq> ''jc''
   \<and> (\<exists>df'. transform_data
     \<lparr>py_str = (\<lambda>v :: unit. ''nan''), parse_datetime = (\<lambda>c. None), NaT = (),
        to_datetime_raises = (\<lambda>s. False),
        datetime_dtype = (\<lambda>s. ''datetime64[ns]''), to_numeric = (\<lambda>s. None)\<rparr>
     \<lparr>nrows = 2,
        cols = [(''station_id'', \<lparr>dtype = ''object'', cells = [Str ''A1'', Str ''A2'']\<rparr>),
                (''start_station_id'', \<lparr>dtype = ''object'', cells = [Str ''B1'', Str ''B2'']\<rparr>)]\<rparr>
     \<lparr>columns = Some Map.empty, column_mappings = Some Map.empty, sources = Some Map.empty,
        last_updated = None\<rparr>
     \<lparr>year = Some ''2021'', month = Some ''01'', region = ''nyc'', type = ''monthly''\<rparr> = Inr df')"
proof -
  let ?md = "\<lparr>year = Some ''2021'', month = Some ''01'', region = ''nyc'', type = ''monthly''\<rparr>"
  have h: "region ?md \<noteq> ''jc''" by simp
  from transform_keeps_colliding_columns [of ?md, THEN conjunct1, THEN mp, OF h] h
  show ?thesis by blast
qed

lemma station_ids_not_time:
  "\<not> is_time_column ''start_station_id''" "\<not> is_time_column ''end_station_id''"
  by code_simp+

lemma fix_station_id_result:
  assumes "getitem df label = Inr (Series s)" and "dtype s = ''object''"
  shows "\<exists>df'. fix_station_id lib label df = Inr df'
           \<and> getitem df' label = Inr (Series
               (let stripped = \<lparr>dtype = ''object'', cells = map (strip_marker lib) (cells s)\<rparr>
                in case to_numeric lib stripped of Some numeric \<Rightarrow> numeric | None \<Rightarrow> stripped))"
  using assms getitem_SeriesD(1) [OF assms(1)] getitem_setitem_same [OF assms(1)]
  by (simp add: fix_station_id_def try_then_def dtype_of_def Let_def split: option.splits)

lemma after_station_ids_kept:
  assumes "prefix_station_names lib df = Inr df1"
  shows "kept (\<lambda>l. is_time_column l \<or> l \<in> set [''start_station_name'', ''end_station_name'',
                                                 ''region'', ''data_source''])
           df (add_data_source file_metadata
                 (convert_datetime_columns lib (setitem_scalar df1 ''region'' ''jersey_city'')))"
proof -
  let ?t = "\<lambda>l. is_time_column l \<or> l \<in> set [''start_station_name'', ''end_station_name'',
                                                 ''region'', ''data_source'']"
  let ?df2 = "setitem_scalar df1 ''region'' ''jersey_city''"
  have "kept ?t df df1"
    by (rule kept_mono [OF prefix_station_names_kept [OF assms]]) auto
  moreover have "kept ?t df1 ?df2"
    unfolding setitem_scalar_def by (rule kept_setitem) simp
  moreover have "kept ?t ?df2 (convert_datetime_columns lib ?df2)"
    by (rule kept_mono [OF convert_datetime_columns_kept]) simp
  moreover have "kept ?t (convert_datetime_columns lib ?df2)
                   (add_data_source file_metadata (convert_datetime_columns lib ?df2))"
    by (rule kept_mono [OF add_data_source_kept]) simp
  ultimately show ?thesis by (blast intro: kept_trans)
qed

text \<open>
  C9. For region \<^verbatim>\<open>jc\<close>, when the renamed dataset has one \<^verbatim>\<open>start_station_id\<close> (or
  \<^verbatim>\<open>end_station_id\<close>) column and its dtype is \<^verbatim>\<open>object\<close>, the column of the result holds
  the values with every occurrence of \<^verbatim>\<open>JC-\<close> and then every occurrence of \<^verbatim>\<open>JC\<close>
  removed, wherever it stands in the value, converted to numbers where \<^verbatim>\<open>pd.to_numeric\<close>
  accepts the whole column and kept as those strings where it raises.
\<close>

theorem jc_station_id_stripped:
  assumes "region file_metadata = ''jc''"
    and "label = ''start_station_id'' \<or> label = ''end_station_id''"
    and "getitem (rename df (build_column_mapping schema ''jc'' (labels df))) label = Inr (Series s)"
    and "dtype s = ''object''"
    and "transform_data lib df schema file_metadata = Inr df'"
  shows "getitem df' label = Inr (Series
           (let stripped = \<lparr>dtype = ''object'',
                             cells = map (\<lambda>c. Str (str_replace ''JC'' []
                                               (str_replace ''JC-'' [] (astype_str lib c))))
                                       (cells s)\<rparr>
            in case to_numeric lib stripped of Some numeric \<Rightarrow> numeric | None \<Rightarrow> stripped))"
proof -
  let ?df0 = "rename df (build_column_mapping schema ''jc'' (labels df))"
  let ?t = "\<lambda>l. is_time_column l \<or> l \<in> set [''start_station_name'', ''end_station_name'',
                                                 ''region'', ''data_source'']"
  let ?result = "let stripped = \<lparr>dtype = ''object'', cells = map (strip_marker lib) (cells s)\<rparr>
                in case to_numeric lib stripped of Some numeric \<Rightarrow> numeric | None \<Rightarrow> stripped"
  from assms(1,5) obtain df1 df2 df3 where
    1: "fix_station_id lib ''start_station_id'' ?df0 = Inr df1" and
    2: "fix_station_id lib ''end_station_id'' df1 = Inr df2" and
    3: "prefix_station_names lib df2 = Inr df3" and
    4: "df' = add_data_source file_metadata
               (convert_datetime_columns lib (setitem_scalar df3 ''region'' ''jersey_city''))"
    by (auto simp: transform_data_def region_corrections_def Let_def try_then_def split: sum.splits)
  have tail: "kept ?t df2 df'"
    unfolding 4 by (rule after_station_ids_kept [OF 3])
  have "getitem df' label = Inr (Series ?result)"
    using assms(2)
  proof
    assume l: "label = ''start_station_id''"
    from fix_station_id_result [OF assms(3,4), of lib] 1 l
    have "getitem df1 label = Inr (Series ?result)" by auto
    moreover have "getitem df2 label = getitem df1 label"
      by (rule kept_getitem [OF fix_station_id_kept [OF 2]]) (simp add: l)
    moreover have "getitem df' label = getitem df2 label"
      by (rule kept_getitem [OF tail]) (simp add: l station_ids_not_time)
    ultimately show ?thesis by simp
  next
    assume l: "label = ''end_station_id''"
    have "getitem df1 label = getitem ?df0 label"
      by (rule kept_getitem [OF fix_station_id_kept [OF 1]]) (simp add: l)
    with assms(3) have "getitem df1 label = Inr (Series s)" by simp
    from fix_station_id_result [OF this assms(4), of lib] 2 l
    have "getitem df2 label = Inr (Series ?result)" by auto
    moreover have "getitem df' label = getitem df2 label"
      by (rule kept_getitem [OF tail]) (simp add: l station_ids_not_time)
    ultimately show ?thesis by simp
  qed
  then show ?thesis by (simp add: strip_marker_def [abs_def])
qed


theorem jc_station_id_stripped_witness:
  "transform_data
     \<lparr>py_str = (\<lambda>v :: unit. ''nan''), parse_datetime = (\<lambda>c. None), NaT = (),
        to_datetime_raises = (\<lambda>s. False),
        datetime_dtype = (\<lambda>s. ''datetime64[ns]''), to_numeric = (\<lambda>s. None)\<rparr>
     \<lparr>nrows = 2,
        cols = [(''Start Station ID'', \<lparr>dtype = ''object'', cells = [Str ''HBJC12'', Str ''JC-7'']\<rparr>)]\<rparr>
     \<lparr>columns = Some Map.empty, column_mappings = Some Map.empty, sources = Some Map.empty,
        last_updated = None\<rparr>
     \<lparr>year = Some ''2021'', month = Some ''01'', region = ''jc'', type = ''monthly''\<rparr>
   = Inr \<lparr>nrows = 2,
        cols = [(''start_station_id'', \<lparr>dtype = ''object'', cells = [Str ''HB12'', Str ''7'']\<rparr>),
                (''region'', \<lparr>dtype = ''object'', cells = [Str ''jersey_city'', Str ''jersey_city'']\<rparr>),
                (''data_source'',
                 \<lparr>dtype = ''object'', cells = [Str ''jc_2021_01'', Str ''jc_2021_01'']\<rparr>)]\<rparr>
   \<and> getitem \<lparr>nrows = 2,
        cols = [(''start_station_id'', \<lparr>dtype = ''object'', cells = [Str ''HB12'', Str ''7'']\<rparr>),
                (''region'', \<lparr>dtype = ''object'', cells = [Str ''jersey_city'', Str ''jersey_city'']\<rparr>),
                (''data_source'',
                 \<lparr>dtype = ''object'', cells = [Str ''jc_2021_01'', Str ''jc_2021_01'']\<rparr>)]\<rparr>
       ''start_station_id''
     = Inr (Series \<lparr>dtype = ''object'', cells = [Str ''HB12'', Str ''7'' :: unit cell]\<rparr>)"
proof -
  let ?lib = "\<lparr>py_str = (\<lambda>v :: unit. ''nan''), parse_datetime = (\<lambda>c. None), NaT = (),
        to_datetime_raises = (\<lambda>s. False),
        datetime_dtype = (\<lambda>s. ''datetime64[ns]''), to_numeric = (\<lambda>s. None)\<rparr>"
  let ?s = "\<lparr>dtype = ''object'', cells = [Str ''HBJC12'', Str ''JC-7'' :: unit cell]\<rparr>"
  let ?df = "\<lparr>nrows = 2, cols = [(''Start Station ID'', ?s)]\<rparr>"
  let ?schema = "\<lparr>columns = Some Map.empty, column_mappings = Some Map.empty,
        sources = Some Map.empty, last_updated = None\<rparr>"
  let ?md = "\<lparr>year = Some ''2021'', month = Some ''01'', region = ''jc'', type = ''monthly''\<rparr>"
  let ?df' = "\<lparr>nrows = 2,
        cols = [(''start_station_id'', \<lparr>dtype = ''object'', cells = [Str ''HB12'', Str ''7'' :: unit cell]\<rparr>),
                (''region'', \<lparr>dtype = ''object'', cells = [Str ''jersey_city'', Str ''jersey_city'']\<rparr>),
                (''data_source'',
                 \<lparr>dtype = ''object'', cells = [Str ''jc_2021_01'', Str ''jc_2021_01'']\<rparr>)]\<rparr>"
  have h1: "region ?md = ''jc''" by simp
  have h2: "''start_station_id'' = ''start_station_id'' \<or> ''start_station_id'' = ''end_station_id''"
    by simp
  have h3: "getitem (rename ?df (build_column_mapping ?schema ''jc'' (labels ?df))) ''start_station_id''
              = Inr (Series ?s)"
    by code_simp
  have h4: "dtype ?s = ''object''" by simp
  have h5: "transform_data ?lib ?df ?schema ?md = Inr ?df'" by code_simp
  have e: "str_replace ''JC'' [] (str_replace ''JC-'' [] ''HBJC12'') = ''HB12''"
    "str_replace ''JC'' [] (str_replace ''JC-'' [] ''JC-7'') = ''7''"
    by code_simp+
  from jc_station_id_stripped [OF h1 h2 h3 h4 h5] h5 show ?thesis
    by (simp add: astype_str_def e)
qed

lemma unique_label_getitem:
  "unique_label df label \<longleftrightarrow> (\<exists>s. getitem df label = Inr (Series s))"
  by (auto simp: unique_label_def getitem_def split: list.splits)

lemma convert_column_cols:
  "convert_column lib col df =
     df\<lparr>cols := map (\<lambda>c. if fst c = col \<and> converts lib df c then (fst c, coerced lib (snd c)) else c)
                    (cols df)\<rparr>"
proof (cases "is_time_column col \<and> unique_label df col")
  case False
  then have "convert_column lib col df = df"
    by (auto simp: convert_column_def try_then_def getitem_def to_datetime_def unique_label_def
        split: list.splits)
  moreover from False have
    "map (\<lambda>c. if fst c = col \<and> converts lib df c then (fst c, coerced lib (snd c)) else c) (cols df)
       = cols df"
    by (auto intro!: map_idI simp: converts_def)
  ultimately show ?thesis by simp
next
  case True
  then obtain s where s: "getitem df col = Inr (Series s)"
    by (auto simp: unique_label_getitem)
  note same = getitem_SeriesD [OF s]
  show ?thesis
  proof (cases "to_datetime_raises lib s")
    case raises: True
    then have "convert_column lib col df = df"
      using s by (simp add: convert_column_def try_then_def to_datetime_def)
    moreover from raises same(2) have
      "map (\<lambda>c. if fst c = col \<and> converts lib df c then (fst c, coerced lib (snd c)) else c) (cols df)
         = cols df"
      by (auto intro!: map_idI simp: converts_def)
    ultimately show ?thesis by simp
  next
    case False
    then have "convert_column lib col df = setitem df col (coerced lib s)"
      using s True by (simp add: convert_column_def try_then_def to_datetime_def coerced_def)
    moreover have
      "map (\<lambda>c. if fst c = col \<and> converts lib df c then (fst c, coerced lib (snd c)) else c) (cols df)
         = map (\<lambda>c. if fst c = col then (col, coerced lib s) else c) (cols df)"
      using same(2) True False by (auto simp: converts_def)
    ultimately show ?thesis using same(1) by (simp add: setitem_def)
  qed
qed

lemma convert_column_labels: "labels (convert_column lib col df) = labels df"
  by (simp add: convert_column_cols [of lib col df] labels_def comp_def cong: map_cong)

lemma label_count:
  "length (filter (\<lambda>c. fst c = l) (cols df)) = length (filter (\<lambda>x. x = l) (labels df))"
  by (simp add: labels_def filter_map comp_def)

lemma unique_label_labels: "labels df' = labels df \<Longrightarrow> unique_label df' = unique_label df"
  by (rule ext) (simp add: unique_label_def label_count)

lemma unique_label_count: "unique_label df l \<longleftrightarrow> count_list (labels df) l = 1"
  by (simp add: unique_label_def labels_def count_list_eq_length_filter filter_map comp_def eq_commute)

lemma fold_convert_column_cols:
  assumes "\<And>l. unique_label df l \<Longrightarrow> count_list ls l \<le> 1"
  shows "cols (fold (convert_column lib) ls df) =
           map (\<lambda>c. if fst c \<in> set ls \<and> converts lib df c then (fst c, coerced lib (snd c)) else c)
             (cols df)"
  using assms
proof (induction ls arbitrary: df)
  case Nil
  show ?case by simp
next
  case (Cons col ls)
  let ?df1 = "convert_column lib col df"
  have u: "unique_label ?df1 = unique_label df"
    by (rule unique_label_labels) (rule convert_column_labels)
  have "cols (fold (convert_column lib) ls ?df1) =
          map (\<lambda>c. if fst c \<in> set ls \<and> converts lib ?df1 c then (fst c, coerced lib (snd c)) else c)
            (cols ?df1)"
  proof (rule Cons.IH)
    fix l assume "unique_label ?df1 l"
    with u Cons.prems [of l] show "count_list ls l \<le> 1"
      by (simp split: if_splits)
  qed
  also have "\<dots> =
     map (\<lambda>c. if fst c \<in> set (col # ls) \<and> converts lib df c then (fst c, coerced lib (snd c)) else c)
       (cols df)"
  proof -
    have "(if fst c' \<in> set ls \<and> converts lib ?df1 c' then (fst c', coerced lib (snd c')) else c')
            = (if fst c \<in> set (col # ls) \<and> converts lib df c then (fst c, coerced lib (snd c)) else c)"
      if c': "c' = (if fst c = col \<and> converts lib df c then (fst c, coerced lib (snd c)) else c)"
      for c c'
    proof (cases "fst c = col \<and> converts lib df c")
      case True
      then have "unique_label df col" by (auto simp: converts_def)
      from Cons.prems [OF this] have "col \<notin> set ls"
        by (simp add: count_list_0_iff [symmetric] del: count_list_0_iff)
      with True c' show ?thesis by simp
    next
      case False
      with c' have "c' = c" by simp
      with False show ?thesis by (auto simp: converts_def u)
    qed
    then show ?thesis
      by (simp add: convert_column_cols [of lib col df])
  qed
  finally show ?case by simp
qed

lemma convert_datetime_columns_cols:
  "cols (convert_datetime_columns lib df) =
     map (\<lambda>c. if converts lib df c then (fst c, coerced lib (snd c)) else c) (cols df)"
proof -
  have "cols (convert_datetime_columns lib df) =
          map (\<lambda>c. if fst c \<in> set (labels df) \<and> converts lib df c
                    then (fst c, coerced lib (snd c)) else c) (cols df)"
    unfolding convert_datetime_columns_def
    by (rule fold_convert_column_cols) (simp add: unique_label_count)
  also have "\<dots> = map (\<lambda>c. if converts lib df c then (fst c, coerced lib (snd c)) else c) (cols df)"
    by (rule map_cong) (auto simp: labels_def)
  finally show ?thesis .
qed

text \<open>
  C5, as stated: where a value of a temporal column fails to convert, the column is left
  with its original values. It is not: below, the second value of \<^verbatim>\<open>starttime\<close> does not
  parse, and the column of the result holds the timestamp of the first value and \<^verbatim>\<open>NaT\<close>
  in place of the second.
\<close>

theorem datetime_per_value_counterexample:
  "parse_datetime
     \<lparr>py_str = (\<lambda>v :: string. v),
        parse_datetime = (\<lambda>c. if c = Str ''2021-01-01 00:00:00'' then Some ''2021-01-01T00:00:00'' else None),
        NaT = ''NaT'', to_datetime_raises = (\<lambda>s. False),
        datetime_dtype = (\<lambda>s. ''datetime64[ns]''), to_numeric = (\<lambda>s. None)\<rparr>
     (Str ''not a date'') = None
   \<and> transform_data
     \<lparr>py_str = (\<lambda>v :: string. v),
        parse_datetime = (\<lambda>c. if c = Str ''2021-01-01 00:00:00'' then Some ''2021-01-01T00:00:00'' else None),
        NaT = ''NaT'', to_datetime_raises = (\<lambda>s. False),
        datetime_dtype = (\<lambda>s. ''datetime64[ns]''), to_numeric = (\<lambda>s. None)\<rparr>
     \<lparr>nrows = 2,
        cols = [(''starttime'', \<lparr>dtype = ''object'',
                                 cells = [Str ''2021-01-01 00:00:00'', Str ''not a date'']\<rparr>)]\<rparr>
     \<lparr>columns = Some Map.empty, column_mappings = Some Map.empty, sources = Some Map.empty,
        last_updated = None\<rparr>
     \<lparr>year = Some ''2021'', month = Some ''01'', region = ''nyc'', type = ''monthly''\<rparr>
   = Inr \<lparr>nrows = 2,
        cols = [(''start_time'', \<lparr>dtype = ''datetime64[ns]'',
                                  cells = [Val ''2021-01-01T00:00:00'', Val ''NaT'']\<rparr>),
                (''region'', \<lparr>dtype = ''object'', cells = [Str ''new_york'', Str ''new_york'']\<rparr>),
                (''data_source'',
                 \<lparr>dtype = ''object'', cells = [Str ''nyc_2021_01'', Str ''nyc_2021_01'']\<rparr>)]\<rparr>"
  by code_simp

text \<open>
  C5, amended. The conversion loop never raises. A column whose label contains a temporal
  keyword, stands once, and on which \<^verbatim>\<open>pd.to_datetime(..., errors='coerce')\<close> returns, is
  replaced by the converted column, of the dtype the library gives it: a value that parses
  becomes its timestamp, a value that does not becomes \<^verbatim>\<open>NaT\<close>. Where the call raises (on the whole column, or because the label
  is repeated), and for every other label, the column is left as it is. The transform
  returns the dataset so converted whenever the region-specific step before it returns.
\<close>

theorem datetime_conversion:
  "cols (convert_datetime_columns lib df) =
     map (\<lambda>c. if is_time_column (fst c) \<and> unique_label df (fst c)
                  \<and> \<not> to_datetime_raises lib (snd c)
               then (fst c, \<lparr>dtype = datetime_dtype lib (snd c),
                             cells = map (coerce_cell lib) (cells (snd c))\<rparr>)
               else c) (cols df)
   \<and> nrows (convert_datetime_columns lib df) = nrows df
   \<and> (parse_datetime lib v = Some t \<longrightarrow> coerce_cell lib v = Val t)
   \<and> (parse_datetime lib v = None \<longrightarrow> coerce_cell lib v = Val (NaT lib))
   \<and> (region_corrections lib (region file_metadata)
         (rename raw (build_column_mapping schema (region file_metadata) (labels raw))) = Inr df \<longrightarrow>
       transform_data lib raw schema file_metadata =
         Inr (add_data_source file_metadata (convert_datetime_columns lib df)))"
proof -
  have "nrows (convert_datetime_columns lib df) = nrows df"
    using convert_datetime_columns_kept [of df lib] by (simp add: kept_def)
  moreover have "cols (convert_datetime_columns lib df) =
     map (\<lambda>c. if is_time_column (fst c) \<and> unique_label df (fst c)
                  \<and> \<not> to_datetime_raises lib (snd c)
               then (fst c, \<lparr>dtype = datetime_dtype lib (snd c),
                             cells = map (coerce_cell lib) (cells (snd c))\<rparr>)
               else c) (cols df)"
    by (simp add: convert_datetime_columns_cols converts_def coerced_def)
  ultimately show ?thesis
    by (simp add: coerce_cell_def transform_data_def Let_def try_then_def)
qed

theorem datetime_conversion_witness:
  "parse_datetime
     \<lparr>py_str = (\<lambda>v :: string. v),
        parse_datetime = (\<lambda>c. if c = Str ''2021-01-01 00:00:00'' then Some ''2021-01-01T00:00:00'' else None),
        NaT = ''NaT'', to_datetime_raises = (\<lambda>s. False),
        datetime_dtype = (\<lambda>s. ''datetime64[ns]''), to_numeric = (\<lambda>s. None)\<rparr>
     (Str ''not a date'') = None
   \<and> coerce_cell
     \<lparr>py_str = (\<lambda>v :: string. v),
        parse_datetime = (\<lambda>c. if c = Str ''2021-01-01 00:00:00'' then Some ''2021-01-01T00:00:00'' else None),
        NaT = ''NaT'', to_datetime_raises = (\<lambda>s. False),
        datetime_dtype = (\<lambda>s. ''datetime64[ns]''), to_numeric = (\<lambda>s. None)\<rparr>
     (Str ''not a date'') = Val ''NaT''"
proof -
  let ?lib = "\<lparr>py_str = (\<lambda>v :: string. v),
        parse_datetime = (\<lambda>c. if c = Str ''2021-01-01 00:00:00'' then Some ''2021-01-01T00:00:00'' else None),
        NaT = ''NaT'', to_datetime_raises = (\<lambda>s. False),
        datetime_dtype = (\<lambda>s. ''datetime64[ns]''), to_numeric = (\<lambda>s. None)\<rparr>"
  have h: "parse_datetime ?lib (Str ''not a date'') = None" by simp
  from datetime_conversion [of ?lib _ "Str ''not a date''", THEN conjunct2, THEN conjunct2,
      THEN conjunct2, THEN conjunct1, THEN mp, OF h] h
  show ?thesis by simp
qed

end
